theory Spec2Isabelle
  imports Complex_Main
begin

section \<open>Property Report API: a shallow embedding of \<^verbatim>\<open>src/main.py\<close>\<close>

text \<open>
  The Python module geocodes an address, asks two providers (EPA ECHO and USGS) for
  facilities near the coordinates, and merges their records into a report. The
  embedding follows the module top to bottom and keeps its names.

  Conventions of the embedding.
  \<^item> A Python \<^verbatim>\<open>str\<close> is a \<open>string\<close>; a character stands for the code point of the
    same number, so the model covers text whose code points are below 256.
  \<^item> A Python \<^verbatim>\<open>float\<close> is a \<open>real\<close>: arithmetic is exact, and the non-finite values
    (\<^verbatim>\<open>inf\<close>, \<^verbatim>\<open>nan\<close>) and signed zeros are outside the model.
  \<^item> An exception is a value of type \<open>exn\<close>; a function that can raise returns
    \<open>exn + 'a\<close>, with \<open>Inl\<close> for the exception.
  \<^item> The network is a parameter: each provider is a function from the request's
    parameters to what the HTTP exchange ends with.
\<close>

subsection \<open>Characters and strings as Python sees them\<close>

text \<open>
  \<^verbatim>\<open>str.isspace\<close>, \<^verbatim>\<open>str.strip()\<close> and the regular expression class \<^verbatim>\<open>\s\<close> agree on
  the white space below code point 256: tab, line feed, vertical tab, form feed,
  carriage return, the four separators 0x1C to 0x1F, space, 0x85 and 0xA0.
\<close>

definition isspace :: "char \<Rightarrow> bool" where
  "isspace c = (c \<in> {CHR 0x09, CHR 0x0A, CHR 0x0B, CHR 0x0C, CHR 0x0D,
                       CHR 0x1C, CHR 0x1D, CHR 0x1E, CHR 0x1F, CHR 0x20,
                       CHR 0x85, CHR 0xA0})"

text \<open>The class \<^verbatim>\<open>\d\<close>: below code point 256 the decimal digits are the ASCII ones.\<close>

definition isdigit :: "char \<Rightarrow> bool" where
  "isdigit c = (c \<in> set ''0123456789'')"

definition isupper :: "char \<Rightarrow> bool" where
  "isupper c = (c \<in> set ''ABCDEFGHIJKLMNOPQRSTUVWXYZ'')"

definition islower :: "char \<Rightarrow> bool" where
  "islower c = (c \<in> set ''abcdefghijklmnopqrstuvwxyz'')"

text \<open>The class \<^verbatim>\<open>[A-Za-z]\<close>.\<close>

definition isalpha :: "char \<Rightarrow> bool" where
  "isalpha c = (isupper c \<or> islower c)"

text \<open>
  Case folding as \<^verbatim>\<open>re.IGNORECASE\<close> applies it to a pattern of ASCII letters: below
  code point 256 only the ASCII capitals fold to ASCII letters.
\<close>

definition lower :: "char \<Rightarrow> char" where
  "lower c =
     (case map_of (zip ''ABCDEFGHIJKLMNOPQRSTUVWXYZ'' ''abcdefghijklmnopqrstuvwxyz'') c of
        Some l \<Rightarrow> l
      | None \<Rightarrow> c)"

text \<open>\<^verbatim>\<open>s.strip()\<close>, \<^verbatim>\<open>s.rstrip(",")\<close> and \<^verbatim>\<open>s.startswith(p)\<close>.\<close>

definition lstrip :: "string \<Rightarrow> string" where
  "lstrip s = dropWhile isspace s"

definition rstrip :: "string \<Rightarrow> string" where
  "rstrip s = rev (dropWhile isspace (rev s))"

definition strip :: "string \<Rightarrow> string" where
  "strip s = rstrip (lstrip s)"

definition rstrip_chars :: "char set \<Rightarrow> string \<Rightarrow> string" where
  "rstrip_chars cs s = rev (dropWhile (\<lambda>c. c \<in> cs) (rev s))"

definition startswith :: "string \<Rightarrow> string \<Rightarrow> bool" where
  "startswith s p = (take (length p) s = p)"

subsection \<open>Regular expressions\<close>

text \<open>
  The two patterns of the module use character classes, greedy repetition of a class,
  sequence, alternation, an optional item, a positive lookahead and the anchor \<^verbatim>\<open>$\<close>.
  \<open>rmatch r s k\<close> matches \<open>r\<close> at the start of \<open>s\<close> as Python's backtracking matcher
  does: alternatives in the order written, repetitions greedy, and a choice is kept
  only if the continuation \<open>k\<close> accepts what is left of the text. The result is the
  text left after the whole match.
\<close>

datatype rx =
    Eps
  | Chr "char \<Rightarrow> bool"
  | Star "char \<Rightarrow> bool"
  | Seq rx rx
  | Alt rx rx
  | Opt rx
  | Look rx
  | Eos

fun star :: "(char \<Rightarrow> bool) \<Rightarrow> string \<Rightarrow> (string \<Rightarrow> string option) \<Rightarrow> string option" where
  "star p [] k = k []"
| "star p (c # s) k =
     (if p c then (case star p s k of Some r \<Rightarrow> Some r | None \<Rightarrow> k (c # s))
      else k (c # s))"

text \<open>
  \<open>Eos\<close> is \<^verbatim>\<open>$\<close> without \<^verbatim>\<open>re.MULTILINE\<close>: the end of the text, or just before a line
  feed that ends the text.
\<close>

fun rmatch :: "rx \<Rightarrow> string \<Rightarrow> (string \<Rightarrow> string option) \<Rightarrow> string option" where
  "rmatch Eps s k = k s"
| "rmatch (Chr p) s k = (case s of [] \<Rightarrow> None | c # t \<Rightarrow> if p c then k t else None)"
| "rmatch (Star p) s k = star p s k"
| "rmatch (Seq a b) s k = rmatch a s (\<lambda>t. rmatch b t k)"
| "rmatch (Alt a b) s k = (case rmatch a s k of Some r \<Rightarrow> Some r | None \<Rightarrow> rmatch b s k)"
| "rmatch (Opt a) s k = (case rmatch a s k of Some r \<Rightarrow> Some r | None \<Rightarrow> k s)"
| "rmatch (Look a) s k = (case rmatch a s Some of Some _ \<Rightarrow> k s | None \<Rightarrow> None)"
| "rmatch Eos s k = (if s = [] \<or> s = [CHR 0x0A] then k s else None)"

text \<open>\<^verbatim>\<open>p+\<close> for a class \<open>p\<close>, a literal character, and a word matched ignoring case.\<close>

definition Plus :: "(char \<Rightarrow> bool) \<Rightarrow> rx" where
  "Plus p = Seq (Chr p) (Star p)"

definition Lit :: "char \<Rightarrow> rx" where
  "Lit c = Chr (\<lambda>x. x = c)"

fun Word_ci :: "string \<Rightarrow> rx" where
  "Word_ci [] = Eps"
| "Word_ci (c # cs) = Seq (Chr (\<lambda>x. lower x = lower c)) (Word_ci cs)"

fun Alts :: "rx list \<Rightarrow> rx" where
  "Alts [] = Chr (\<lambda>_. False)"
| "Alts [r] = r"
| "Alts (r # rs) = Alt r (Alts rs)"

text \<open>
  \<^verbatim>\<open>pattern.sub("", s)\<close>: the text is scanned from the left; where the pattern matches,
  the matched text is dropped and the scan goes on after it; elsewhere the character
  is kept. A match of no character replaces nothing, and the scan moves one character
  on.
\<close>

fun re_sub_empty :: "rx \<Rightarrow> string \<Rightarrow> string" where
  "re_sub_empty r [] = []"
| "re_sub_empty r (c # t) =
     (case rmatch r (c # t) Some of
        Some rest \<Rightarrow>
          if length rest < length (c # t) then re_sub_empty r rest
          else c # re_sub_empty r t
      | None \<Rightarrow> c # re_sub_empty r t)"

text \<open>A pattern that takes at least one character whenever it matches.\<close>

fun consuming :: "rx \<Rightarrow> bool" where
  "consuming (Chr p) = True"
| "consuming (Seq a b) = (consuming a \<or> consuming b)"
| "consuming (Alt a b) = (consuming a \<and> consuming b)"
| "consuming _ = False"

text \<open>The characters a pattern can take into a match.\<close>

fun may_take :: "rx \<Rightarrow> char \<Rightarrow> bool" where
  "may_take (Chr p) c = p c"
| "may_take (Star p) c = p c"
| "may_take (Seq a b) c = (may_take a c \<or> may_take b c)"
| "may_take (Alt a b) c = (may_take a c \<or> may_take b c)"
| "may_take (Opt a) c = may_take a c"
| "may_take _ c = False"

subsection \<open>Helpers of the module\<close>

text \<open>
  \<^verbatim>\<open>UNIT_PATTERNS\<close>, compiled with \<^verbatim>\<open>re.IGNORECASE | re.VERBOSE\<close>:
  \<^verbatim>\<open>\s* (?: \#\s*\d+[A-Za-z]? | (?:Suite|Ste|Unit|Apt|Apartment|Room|Rm|Floor|Fl|Bldg|Building) [.\s:]+[A-Za-z0-9-]+ ) (?=\s*,|\s*$)\<close>
\<close>

definition unit_labels :: "string list" where
  "unit_labels = [''Suite'', ''Ste'', ''Unit'', ''Apt'', ''Apartment'', ''Room'', ''Rm'',
                  ''Floor'', ''Fl'', ''Bldg'', ''Building'']"

definition UNIT_PATTERNS :: rx where
  "UNIT_PATTERNS =
     Seq (Star isspace)
      (Seq
        (Alt
          (Seq (Lit CHR ''#'') (Seq (Star isspace) (Seq (Plus isdigit) (Opt (Chr isalpha)))))
          (Seq (Alts (map Word_ci unit_labels))
            (Seq (Plus (\<lambda>c. c = CHR ''.'' \<or> isspace c \<or> c = CHR '':''))
                 (Plus (\<lambda>c. isalpha c \<or> isdigit c \<or> c = CHR ''-'')))))
        (Look (Alt (Seq (Star isspace) (Lit CHR '',''))
                   (Seq (Star isspace) Eos))))"

text \<open>
  What the lookahead of \<^verbatim>\<open>UNIT_PATTERNS\<close> asks of the text after a match: after any
  white space, a comma or the end.
\<close>

definition before_comma_or_end :: "string \<Rightarrow> bool" where
  "before_comma_or_end s =
     (case dropWhile isspace s of [] \<Rightarrow> True | c # _ \<Rightarrow> c = CHR '','')"

definition strip_unit :: "string \<Rightarrow> string" where
  "strip_unit address = rstrip_chars {CHR '',''} (strip (re_sub_empty UNIT_PATTERNS address))"

text \<open>
  The functions of the \<^verbatim>\<open>math\<close> module and the built-in \<^verbatim>\<open>round\<close> that the helpers call.
  \<^verbatim>\<open>math.atan2(y, x)\<close> is the angle of the point \<open>(x, y)\<close> in \<open>(-\<pi>, \<pi>]\<close>, and it is
  \<open>0\<close> at the origin. \<^verbatim>\<open>round\<close> rounds a tie to the even neighbour; with a number of
  digits it rounds the decimal at that position. \<^verbatim>\<open>x % m\<close> on floats with \<open>0 < m\<close> has
  the sign of \<open>m\<close>.
\<close>

definition radians :: "real \<Rightarrow> real" where
  "radians x = x * pi / 180"

definition degrees :: "real \<Rightarrow> real" where
  "degrees x = x * 180 / pi"

definition atan2 :: "real \<Rightarrow> real \<Rightarrow> real" where
  "atan2 y x =
     (if 0 < x then arctan (y / x)
      else if x < 0 then (if 0 \<le> y then arctan (y / x) + pi else arctan (y / x) - pi)
      else if 0 < y then pi / 2
      else if y < 0 then - (pi / 2)
      else 0)"

definition py_round_int :: "real \<Rightarrow> int" where
  "py_round_int x =
     (let f = \<lfloor>x\<rfloor>; d = x - of_int f in
      if d < 1 / 2 then f
      else if 1 / 2 < d then f + 1
      else if even f then f
      else f + 1)"

definition py_round :: "real \<Rightarrow> nat \<Rightarrow> real" where
  "py_round x ndigits = of_int (py_round_int (x * 10 ^ ndigits)) / 10 ^ ndigits"

definition py_fmod :: "real \<Rightarrow> real \<Rightarrow> real" where
  "py_fmod x m = x - m * of_int \<lfloor>x / m\<rfloor>"

text \<open>
  \<^verbatim>\<open>haversine\<close>: the great-circle distance in miles between two points given in decimal
  degrees, rounded to two decimals. \<open>haversine_a\<close> is the \<^verbatim>\<open>a\<close> of the source.
\<close>

definition haversine_a :: "real \<Rightarrow> real \<Rightarrow> real \<Rightarrow> real \<Rightarrow> real" where
  "haversine_a lat1 lon1 lat2 lon2 =
     (let phi1 = radians lat1; phi2 = radians lat2;
          dphi = radians (lat2 - lat1);
          dlambda = radians (lon2 - lon1)
      in (sin (dphi / 2))\<^sup>2 + cos phi1 * cos phi2 * (sin (dlambda / 2))\<^sup>2)"

definition haversine :: "real \<Rightarrow> real \<Rightarrow> real \<Rightarrow> real \<Rightarrow> real" where
  "haversine lat1 lon1 lat2 lon2 =
     (let R = 3958.8;
          a = haversine_a lat1 lon1 lat2 lon2;
          c = 2 * atan2 (sqrt a) (sqrt (1 - a))
      in py_round (R * c) 2)"

text \<open>
  \<^verbatim>\<open>cardinal_direction\<close>: the 8-point compass direction from the first point to the
  second.
\<close>

definition directions :: "string list" where
  "directions = [''N'', ''NE'', ''E'', ''SE'', ''S'', ''SW'', ''W'', ''NW'']"

definition direction_index :: "real \<Rightarrow> real \<Rightarrow> real \<Rightarrow> real \<Rightarrow> int" where
  "direction_index lat1 lon1 lat2 lon2 =
     (let dlat = lat2 - lat1;
          dlon = lon2 - lon1;
          angle = degrees (atan2 dlon dlat);
          angle = py_fmod (angle + 360) 360
      in py_round_int (angle / 45) mod 8)"

definition cardinal_direction :: "real \<Rightarrow> real \<Rightarrow> real \<Rightarrow> real \<Rightarrow> string" where
  "cardinal_direction lat1 lon1 lat2 lon2 =
     directions ! nat (direction_index lat1 lon1 lat2 lon2)"

text \<open>
  \<^verbatim>\<open>_bounding_box\<close> computes west, south, east and north in degrees and returns them
  joined by commas. \<open>bounding_box_values\<close> is the four numbers; the text is built from
  them further down, where the formatting of a float is at hand.
\<close>

definition bounding_box_values :: "real \<Rightarrow> real \<Rightarrow> real \<Rightarrow> real \<times> real \<times> real \<times> real" where
  "bounding_box_values lat lon radius_miles =
     (let lat_delta = radius_miles / 69.0;
          cos_lat = cos (radians lat);
          lon_delta = (if 1 / 10 ^ 6 < cos_lat then radius_miles / (69.0 * cos_lat) else 180.0);
          west = py_round (max (lon - lon_delta) (- 180.0)) 6;
          south = py_round (max (lat - lat_delta) (- 90.0)) 6;
          east = py_round (min (lon + lon_delta) 180.0) 6;
          north = py_round (min (lat + lat_delta) 90.0) 6
      in (west, south, east, north))"

text \<open>
  The two deltas as the specification words them: \<open>r / 69.0\<close> degrees of latitude,
  and \<open>r / (69.0 \<cdot> cos(lat))\<close> degrees of longitude, which falls back to 180 when
  \<open>cos(lat) \<le> 1e-6\<close>.
\<close>

definition spec_lat_delta :: "real \<Rightarrow> real" where
  "spec_lat_delta r = r / 69"

definition spec_lon_delta :: "real \<Rightarrow> real \<Rightarrow> real" where
  "spec_lon_delta lat r =
     (if cos (radians lat) \<le> 1 / 10 ^ 6 then 180 else r / (69 * cos (radians lat)))"

subsection \<open>Values decoded from JSON, and exceptions\<close>

text \<open>
  What \<^verbatim>\<open>resp.json()\<close> returns: \<^verbatim>\<open>None\<close>, a \<^verbatim>\<open>bool\<close>, an \<^verbatim>\<open>int\<close>, a \<^verbatim>\<open>float\<close>, a \<^verbatim>\<open>str\<close>,
  a \<^verbatim>\<open>list\<close> or a \<^verbatim>\<open>dict\<close> with string keys (an association list, read with
  \<open>map_of\<close>).
\<close>

datatype json =
    JNull
  | JBool bool
  | JInt int
  | JFloat real
  | JStr string
  | JArr "json list"
  | JObj "(string \<times> json) list"

text \<open>
  The exceptions the module raises or lets through. \<open>HTTPException\<close> carries the
  status code and the detail; \<open>TimeoutException\<close> and \<open>HTTPError\<close> are those of
  \<^verbatim>\<open>httpx\<close> and carry the message. \<open>ValidationError\<close> is pydantic's.
\<close>

datatype exn =
    HTTPException nat string
  | TimeoutException string
  | HTTPError string
  | ValueError
  | TypeError
  | AttributeError
  | KeyError
  | IndexError
  | ValidationError

text \<open>
  Two functions of the Python runtime are parameters of the embedding:
  \<open>py_float\<close> is \<^verbatim>\<open>float(s)\<close> on a string (\<open>None\<close> when it raises \<^verbatim>\<open>ValueError\<close>), and
  \<open>py_str\<close> is the text an f-string puts for a value that is not a string.
\<close>

record pylib =
  py_float :: "string \<Rightarrow> real option"
  py_str :: "json \<Rightarrow> string"

text \<open>The text an f-string puts for a value: a string stands for itself.\<close>

definition fstr :: "pylib \<Rightarrow> json \<Rightarrow> string" where
  "fstr L v = (case v of JStr s \<Rightarrow> s | _ \<Rightarrow> py_str L v)"

text \<open>The truth value of an object, as \<^verbatim>\<open>if x\<close>, \<^verbatim>\<open>not x\<close> and \<^verbatim>\<open>x or y\<close> take it.\<close>

fun truthy :: "json \<Rightarrow> bool" where
  "truthy JNull = False"
| "truthy (JBool b) = b"
| "truthy (JInt i) = (i \<noteq> 0)"
| "truthy (JFloat x) = (x \<noteq> 0)"
| "truthy (JStr s) = (s \<noteq> [])"
| "truthy (JArr xs) = (xs \<noteq> [])"
| "truthy (JObj kvs) = (kvs \<noteq> [])"

text \<open>\<^verbatim>\<open>x.get(key, default)\<close>: only a \<^verbatim>\<open>dict\<close> has the method.\<close>

fun dict_get :: "json \<Rightarrow> string \<Rightarrow> json \<Rightarrow> exn + json" where
  "dict_get (JObj kvs) key dflt = Inr (case map_of kvs key of Some v \<Rightarrow> v | None \<Rightarrow> dflt)"
| "dict_get _ key dflt = Inl AttributeError"

text \<open>\<^verbatim>\<open>x[key]\<close> with a string key, and \<^verbatim>\<open>x[0]\<close>.\<close>

fun getitem :: "json \<Rightarrow> string \<Rightarrow> exn + json" where
  "getitem (JObj kvs) key = (case map_of kvs key of Some v \<Rightarrow> Inr v | None \<Rightarrow> Inl KeyError)"
| "getitem _ key = Inl TypeError"

fun getitem0 :: "json \<Rightarrow> exn + json" where
  "getitem0 (JArr []) = Inl IndexError"
| "getitem0 (JArr (v # _)) = Inr v"
| "getitem0 (JStr []) = Inl IndexError"
| "getitem0 (JStr (c # _)) = Inr (JStr [c])"
| "getitem0 (JObj _) = Inl KeyError"
| "getitem0 _ = Inl TypeError"

text \<open>\<^verbatim>\<open>float(x)\<close>.\<close>

fun to_float :: "pylib \<Rightarrow> json \<Rightarrow> exn + real" where
  "to_float L (JInt i) = Inr (of_int i)"
| "to_float L (JFloat x) = Inr x"
| "to_float L (JBool b) = Inr (if b then 1 else 0)"
| "to_float L (JStr s) = (case py_float L s of Some x \<Rightarrow> Inr x | None \<Rightarrow> Inl ValueError)"
| "to_float L _ = Inl TypeError"

text \<open>\<^verbatim>\<open>for row in x\<close>: a list gives its items, a string its characters, a dict its keys.\<close>

fun py_iter :: "json \<Rightarrow> exn + json list" where
  "py_iter (JArr xs) = Inr xs"
| "py_iter (JStr s) = Inr (map (\<lambda>c. JStr [c]) s)"
| "py_iter (JObj kvs) = Inr (map (\<lambda>kv. JStr (fst kv)) kvs)"
| "py_iter _ = Inl TypeError"

text \<open>\<^verbatim>\<open>s.splitlines()\<close> and \<^verbatim>\<open>s.split(sep)\<close> for a separator of one character.\<close>

definition is_linebreak :: "char \<Rightarrow> bool" where
  "is_linebreak c = (c \<in> {CHR 0x0A, CHR 0x0B, CHR 0x0C, CHR 0x0D,
                           CHR 0x1C, CHR 0x1D, CHR 0x1E, CHR 0x85})"

fun cons_line :: "char \<Rightarrow> string list \<Rightarrow> string list" where
  "cons_line c [] = [[c]]"
| "cons_line c (l # ls) = (c # l) # ls"

fun splitlines :: "string \<Rightarrow> string list" where
  "splitlines [] = []"
| "splitlines [c] = (if is_linebreak c then [[]] else [[c]])"
| "splitlines (c # d # s) =
     (if c = CHR 0x0D \<and> d = CHR 0x0A then [] # splitlines s
      else if is_linebreak c then [] # splitlines (d # s)
      else cons_line c (splitlines (d # s)))"

fun split_on :: "char \<Rightarrow> string \<Rightarrow> string list" where
  "split_on sep [] = [[]]"
| "split_on sep (c # s) =
     (if c = sep then [] # split_on sep s else cons_line c (split_on sep s))"

subsection \<open>Request and response schemas\<close>

text \<open>
  The pydantic models. Field names are those of the source, with a prefix where two
  models share a name: \<open>req_\<close> for \<^verbatim>\<open>ReportRequest\<close>, \<open>center_\<close> for the coordinates of
  \<^verbatim>\<open>ReportResponse\<close>, \<open>geo_\<close> for the coordinates of the dict that
  \<^verbatim>\<open>geocode_address\<close> returns.
\<close>

record ReportRequest =
  req_address :: string
  req_radius_miles :: real

record Facility =
  name :: string
  registry_id :: string
  latitude :: real
  longitude :: real
  distance_miles :: real
  direction :: string
  source :: string

record ReportResponse =
  address :: string
  center_latitude :: real
  center_longitude :: real
  radius_miles :: real
  total_findings :: nat
  facilities :: "Facility list"

text \<open>
  \<^verbatim>\<open>ReportRequest(address=..., radius_miles=...)\<close>: the address has at least one
  character and is not blank, and is stored stripped; the radius is in \<open>(0, 50]\<close>.
\<close>

definition validate_ReportRequest :: "string \<Rightarrow> real \<Rightarrow> exn + ReportRequest" where
  "validate_ReportRequest a r =
     (if length a < 1 \<or> strip a = [] \<or> \<not> (0 < r) \<or> \<not> (r \<le> 50) then Inl ValidationError
      else Inr \<lparr>req_address = strip a, req_radius_miles = r\<rparr>)"

text \<open>
  The dict that \<^verbatim>\<open>geocode_address\<close> returns, and the dicts that the two fetchers
  return. A number in a fetched dict is a \<^verbatim>\<open>float\<close> or the literal \<^verbatim>\<open>0\<close>, an \<^verbatim>\<open>int\<close>,
  and an f-string prints the two differently.
\<close>

record geo_dict =
  original_address :: string
  cleaned_address :: string
  geo_latitude :: real
  geo_longitude :: real
  display_name :: json

datatype pynum = PInt int | PFloat real

fun num_val :: "pynum \<Rightarrow> real" where
  "num_val (PInt i) = of_int i"
| "num_val (PFloat x) = x"

fun num_json :: "pynum \<Rightarrow> json" where
  "num_json (PInt i) = JInt i"
| "num_json (PFloat x) = JFloat x"

record raw =
  raw_name :: json
  raw_registry_id :: json
  raw_latitude :: pynum
  raw_longitude :: pynum
  raw_source :: string

text \<open>
  The three providers: what the HTTP exchange with each ends with, an exception
  (of \<^verbatim>\<open>client.get\<close>, of \<^verbatim>\<open>raise_for_status\<close>, or of decoding the body) or the body.
  Nominatim is asked with the query text, ECHO with latitude, longitude and radius,
  USGS with the bounding box.
\<close>

record providers =
  nominatim :: "string \<Rightarrow> exn + json"
  echo :: "real \<Rightarrow> real \<Rightarrow> real \<Rightarrow> exn + json"
  usgs :: "string \<Rightarrow> exn + string"

subsection \<open>Core functions\<close>

text \<open>\<^verbatim>\<open>geocode_address\<close>.\<close>

definition geocode_address :: "pylib \<Rightarrow> (string \<Rightarrow> exn + json) \<Rightarrow> string \<Rightarrow> exn + geo_dict" where
  "geocode_address L get addr =
     (let cleaned = strip_unit addr in
      if cleaned = [] then
        Inl (HTTPException 400
          ''Address became empty after removing unit/suite number. Please provide a full street address.'')
      else
        (case get cleaned of
           Inl e \<Rightarrow> Inl e
         | Inr results \<Rightarrow>
             if \<not> truthy results then
               Inl (HTTPException 404 (''Could not geocode address: '' @ cleaned))
             else
               (case getitem0 results of
                  Inl e \<Rightarrow> Inl e
                | Inr hit \<Rightarrow>
                    (case getitem hit ''lat'' of
                       Inl e \<Rightarrow> Inl e
                     | Inr vlat \<Rightarrow>
                         (case to_float L vlat of
                            Inl e \<Rightarrow> Inl e
                          | Inr flat \<Rightarrow>
                              (case getitem hit ''lon'' of
                                 Inl e \<Rightarrow> Inl e
                               | Inr vlon \<Rightarrow>
                                   (case to_float L vlon of
                                      Inl e \<Rightarrow> Inl e
                                    | Inr flon \<Rightarrow>
                                        (case dict_get hit ''display_name'' (JStr []) of
                                           Inl e \<Rightarrow> Inl e
                                         | Inr dn \<Rightarrow>
                                             Inr \<lparr>original_address = addr,
                                                  cleaned_address = cleaned,
                                                  geo_latitude = flat,
                                                  geo_longitude = flon,
                                                  display_name = dn\<rparr>))))))))"

text \<open>
  \<^verbatim>\<open>fetch_epa_echo\<close>. Whatever the exchange raises gives the empty list. The rows are
  looked up after the \<^verbatim>\<open>try\<close> block; in the loop only \<^verbatim>\<open>ValueError\<close> and \<^verbatim>\<open>TypeError\<close>
  are caught, and both come from \<^verbatim>\<open>float\<close> alone.
\<close>

definition epa_rows :: "json \<Rightarrow> exn + json" where
  "epa_rows data =
     (case dict_get data ''Results'' (JObj []) of
        Inl e \<Rightarrow> Inl e
      | Inr res \<Rightarrow>
          (case dict_get res ''Facilities'' (JArr []) of
             Inl e \<Rightarrow> Inl e
           | Inr v1 \<Rightarrow>
               if truthy v1 then Inr v1
               else
                 (case dict_get data ''Results'' (JObj []) of
                    Inl e \<Rightarrow> Inl e
                  | Inr res2 \<Rightarrow>
                      (case dict_get res2 ''FacilityList'' (JArr []) of
                         Inl e \<Rightarrow> Inl e
                       | Inr v2 \<Rightarrow> if truthy v2 then Inr v2 else Inr (JArr [])))))"

fun epa_loop :: "pylib \<Rightarrow> json list \<Rightarrow> raw list \<Rightarrow> exn + raw list" where
  "epa_loop L [] facs = Inr facs"
| "epa_loop L (row # rows) facs =
     (case dict_get row ''FacLat'' (JInt 0) of
        Inl e \<Rightarrow> Inl e
      | Inr dlat \<Rightarrow>
     (case dict_get row ''Lat83'' dlat of
        Inl e \<Rightarrow> Inl e
      | Inr vlat \<Rightarrow>
     (case to_float L vlat of
        Inl _ \<Rightarrow> epa_loop L rows facs
      | Inr fac_lat \<Rightarrow>
     (case dict_get row ''FacLong'' (JInt 0) of
        Inl e \<Rightarrow> Inl e
      | Inr dlon \<Rightarrow>
     (case dict_get row ''Long83'' dlon of
        Inl e \<Rightarrow> Inl e
      | Inr vlon \<Rightarrow>
     (case to_float L vlon of
        Inl _ \<Rightarrow> epa_loop L rows facs
      | Inr fac_lon \<Rightarrow>
          if fac_lat = 0 \<and> fac_lon = 0 then epa_loop L rows facs
          else
     (case dict_get row ''Name'' (JStr ''Unknown Facility'') of
        Inl e \<Rightarrow> Inl e
      | Inr dname \<Rightarrow>
     (case dict_get row ''FacName'' dname of
        Inl e \<Rightarrow> Inl e
      | Inr vname \<Rightarrow>
     (case dict_get row ''FacId'' (JStr ''N/A'') of
        Inl e \<Rightarrow> Inl e
      | Inr did \<Rightarrow>
     (case dict_get row ''RegistryID'' did of
        Inl e \<Rightarrow> Inl e
      | Inr vid \<Rightarrow>
          epa_loop L rows
            (facs @
              [\<lparr>raw_name = vname, raw_registry_id = vid,
                raw_latitude = PFloat fac_lat, raw_longitude = PFloat fac_lon,
                raw_source = ''EPA_ECHO''\<rparr>])))))))))))"

definition fetch_epa_echo ::
    "pylib \<Rightarrow> (real \<Rightarrow> real \<Rightarrow> real \<Rightarrow> exn + json) \<Rightarrow> real \<Rightarrow> real \<Rightarrow> real \<Rightarrow> exn + raw list" where
  "fetch_epa_echo L get lat lon radius =
     (case get lat lon radius of
        Inl _ \<Rightarrow> Inr []
      | Inr data \<Rightarrow>
          (case epa_rows data of
             Inl e \<Rightarrow> Inl e
           | Inr rows \<Rightarrow>
               (case py_iter rows of
                  Inl e \<Rightarrow> Inl e
                | Inr rs \<Rightarrow> epa_loop L rs [])))"

text \<open>\<^verbatim>\<open>_bounding_box\<close>: the four numbers, joined by commas.\<close>

definition bounding_box :: "pylib \<Rightarrow> real \<Rightarrow> real \<Rightarrow> real \<Rightarrow> string" where
  "bounding_box L lat lon radius =
     (case bounding_box_values lat lon radius of
        (west, south, east, north) \<Rightarrow>
          py_str L (JFloat west) @ '','' @ py_str L (JFloat south) @ '','' @
          py_str L (JFloat east) @ '','' @ py_str L (JFloat north))"

text \<open>
  \<^verbatim>\<open>fetch_usgs\<close>. The data-type row is found with \<^verbatim>\<open>re.match(r"^\d+[sdna]$", p.strip())\<close>
  on every part that is not blank.
\<close>

definition TYPE_TOKEN :: rx where
  "TYPE_TOKEN = Seq (Plus isdigit) (Seq (Chr (\<lambda>c. c \<in> set ''sdna'')) Eos)"

definition is_type_row :: "string list \<Rightarrow> bool" where
  "is_type_row parts =
     list_all (\<lambda>p. rmatch TYPE_TOKEN (strip p) Some \<noteq> None)
       (filter (\<lambda>p. strip p \<noteq> []) parts)"

definition float_or_zero :: "pylib \<Rightarrow> string list \<Rightarrow> nat \<Rightarrow> pynum option" where
  "float_or_zero L parts i =
     (if i < length parts then map_option PFloat (py_float L (parts ! i)) else Some (PInt 0))"

fun usgs_loop :: "pylib \<Rightarrow> string list \<Rightarrow> bool \<Rightarrow> raw list \<Rightarrow> raw list" where
  "usgs_loop L [] header_seen sites = sites"
| "usgs_loop L (line # lines) header_seen sites =
     (if startswith line ''#'' then usgs_loop L lines header_seen sites
      else if \<not> header_seen then usgs_loop L lines True sites
      else
        (let parts = split_on CHR 0x09 line in
         if is_type_row parts then usgs_loop L lines header_seen sites
         else if length parts < 5 then usgs_loop L lines header_seen sites
         else
           (let site_name = (if 2 < length parts then parts ! 2 else ''USGS Site'') in
            case float_or_zero L parts 4 of
              None \<Rightarrow> usgs_loop L lines header_seen sites
            | Some site_lat \<Rightarrow>
                (case float_or_zero L parts 5 of
                   None \<Rightarrow> usgs_loop L lines header_seen sites
                 | Some site_lon \<Rightarrow>
                     if num_val site_lat = 0 \<and> num_val site_lon = 0
                     then usgs_loop L lines header_seen sites
                     else
                       usgs_loop L lines header_seen
                         (sites @
                           [\<lparr>raw_name = JStr (strip site_name),
                             raw_registry_id =
                               JStr (if 1 < length parts then strip (parts ! 1) else ''N/A''),
                             raw_latitude = site_lat,
                             raw_longitude = site_lon,
                             raw_source = ''USGS''\<rparr>])))))"

definition fetch_usgs ::
    "pylib \<Rightarrow> (string \<Rightarrow> exn + string) \<Rightarrow> real \<Rightarrow> real \<Rightarrow> real \<Rightarrow> raw list" where
  "fetch_usgs L get lat lon radius =
     (case get (bounding_box L lat lon radius) of
        Inl _ \<Rightarrow> []
      | Inr body \<Rightarrow> usgs_loop L (splitlines body) False [])"

subsection \<open>The report endpoint\<close>

text \<open>
  The key under which a fetched record is remembered in \<^verbatim>\<open>seen_ids\<close>: an f-string,
  \<^verbatim>\<open>f"{rid}|{raw['source']}"\<close> when the registry id is true and is not \<^verbatim>\<open>"N/A"\<close>, otherwise
  \<^verbatim>\<open>f"{raw['name']}|{raw['latitude']}|{raw['longitude']}|{raw['source']}"\<close>.
\<close>

definition dedup_key :: "pylib \<Rightarrow> raw \<Rightarrow> string" where
  "dedup_key L r =
     (let rid = raw_registry_id r in
      if truthy rid \<and> rid \<noteq> JStr ''N/A'' then fstr L rid @ ''|'' @ raw_source r
      else fstr L (raw_name r) @ ''|'' @ fstr L (num_json (raw_latitude r)) @ ''|'' @
           fstr L (num_json (raw_longitude r)) @ ''|'' @ raw_source r)"

text \<open>
  \<^verbatim>\<open>Facility(name=..., registry_id=..., ...)\<close>: pydantic takes a \<^verbatim>\<open>str\<close> field from a string
  only, and a \<^verbatim>\<open>float\<close> field from an \<^verbatim>\<open>int\<close> or a \<^verbatim>\<open>float\<close>.
\<close>

definition make_Facility :: "raw \<Rightarrow> real \<Rightarrow> string \<Rightarrow> exn + Facility" where
  "make_Facility r dmiles dir =
     (case (raw_name r, raw_registry_id r) of
        (JStr n, JStr rid) \<Rightarrow>
          Inr \<lparr>name = n, registry_id = rid,
               latitude = num_val (raw_latitude r), longitude = num_val (raw_longitude r),
               distance_miles = dmiles, direction = dir, source = raw_source r\<rparr>
      | _ \<Rightarrow> Inl ValidationError)"

text \<open>
  The loop over \<^verbatim>\<open>all_raw\<close>, with the set \<^verbatim>\<open>seen_ids\<close> and the list \<^verbatim>\<open>facilities\<close> as its
  state.
\<close>

fun collect ::
    "pylib \<Rightarrow> real \<Rightarrow> real \<Rightarrow> real \<Rightarrow> raw list \<Rightarrow> string set \<Rightarrow> Facility list \<Rightarrow> exn + Facility list" where
  "collect L lat lon radius [] seen_ids facs = Inr facs"
| "collect L lat lon radius (r # rest) seen_ids facs =
     (if dedup_key L r \<in> seen_ids then collect L lat lon radius rest seen_ids facs
      else
        (let seen_ids' = insert (dedup_key L r) seen_ids;
             dist = haversine lat lon (num_val (raw_latitude r)) (num_val (raw_longitude r))
         in if radius < dist then collect L lat lon radius rest seen_ids' facs
            else
              (case make_Facility r dist
                      (cardinal_direction lat lon
                         (num_val (raw_latitude r)) (num_val (raw_longitude r))) of
                 Inl e \<Rightarrow> Inl e
               | Inr f \<Rightarrow> collect L lat lon radius rest seen_ids' (facs @ [f]))))"

text \<open>
  \<^verbatim>\<open>report\<close>. A geocoding failure is translated as the \<^verbatim>\<open>except\<close> clauses say, in their
  order; any other exception goes through. The two fetchers are awaited together,
  and \<^verbatim>\<open>all_raw\<close> is the ECHO records followed by the USGS records. \<^verbatim>\<open>list.sort\<close> is a
  stable sort by the key, as \<open>sort_key\<close> is.
\<close>

definition geocode_failure :: "exn \<Rightarrow> exn" where
  "geocode_failure e =
     (case e of
        HTTPException code detail \<Rightarrow> e
      | TimeoutException msg \<Rightarrow>
          HTTPException 504 ''Geocoding service timed out. Please try again.''
      | HTTPError msg \<Rightarrow> HTTPException 502 (''Geocoding service error: '' @ msg)
      | _ \<Rightarrow> e)"

definition report :: "pylib \<Rightarrow> providers \<Rightarrow> ReportRequest \<Rightarrow> exn + ReportResponse" where
  "report L P req =
     (case geocode_address L (nominatim P) (req_address req) of
        Inl e \<Rightarrow> Inl (geocode_failure e)
      | Inr geo \<Rightarrow>
          (let lat = geo_latitude geo; lon = geo_longitude geo in
           case fetch_epa_echo L (echo P) lat lon (req_radius_miles req) of
             Inl e \<Rightarrow> Inl e
           | Inr epa_results \<Rightarrow>
               (let usgs_results = fetch_usgs L (usgs P) lat lon (req_radius_miles req);
                    all_raw = epa_results @ usgs_results
                in case collect L lat lon (req_radius_miles req) all_raw {} [] of
                     Inl e \<Rightarrow> Inl e
                   | Inr facs \<Rightarrow>
                       (let sorted_facs = sort_key distance_miles facs in
                        Inr \<lparr>address = cleaned_address geo,
                             center_latitude = lat,
                             center_longitude = lon,
                             radius_miles = req_radius_miles req,
                             total_findings = length sorted_facs,
                             facilities = sorted_facs\<rparr>))))"

subsection \<open>Deduplication as the specification words it\<close>

text \<open>
  The specification's account of the loop, to compare the loop with: of the records
  that share a key the first is kept, and the key of a record is a tuple,
  \<open>(external_id, source)\<close> when the id is present and not \<^verbatim>\<open>"N/A"\<close>, otherwise
  \<open>(name, latitude, longitude, source)\<close>.
\<close>

fun spec_keep_first :: "('a \<Rightarrow> 'k) \<Rightarrow> 'a list \<Rightarrow> 'a list" where
  "spec_keep_first key [] = []"
| "spec_keep_first key (x # xs) = x # spec_keep_first key (filter (\<lambda>y. key y \<noteq> key x) xs)"

datatype spec_key = IdKey json string | FieldKey json real real string

definition spec_dedup_key :: "raw \<Rightarrow> spec_key" where
  "spec_dedup_key r =
     (let rid = raw_registry_id r in
      if truthy rid \<and> rid \<noteq> JStr ''N/A'' then IdKey rid (raw_source r)
      else FieldKey (raw_name r) (num_val (raw_latitude r)) (num_val (raw_longitude r))
             (raw_source r))"

text \<open>
  What one pass of the loop body computes for a record: its distance from the
  centre, and the \<^verbatim>\<open>Facility\<close> built from it.
\<close>

definition raw_distance :: "real \<Rightarrow> real \<Rightarrow> raw \<Rightarrow> real" where
  "raw_distance lat lon r =
     haversine lat lon (num_val (raw_latitude r)) (num_val (raw_longitude r))"

definition facility_of :: "real \<Rightarrow> real \<Rightarrow> raw \<Rightarrow> exn + Facility" where
  "facility_of lat lon r =
     make_Facility r (raw_distance lat lon r)
       (cardinal_direction lat lon (num_val (raw_latitude r)) (num_val (raw_longitude r)))"

subsection \<open>A sample run\<close>

text \<open>
  A small environment on which the theorems below are exercised. The runtime knows
  four float literals. Nominatim finds \<^verbatim>\<open>1 Main St\<close> at \<open>(30, -97)\<close>. ECHO lists
  plant A at the centre, plant B two degrees north of it, and a second record with
  the registry id of plant A. USGS lists one site at the centre, after a comment
  line, the header row and the data-type row.
\<close>

definition demo_lib :: pylib where
  "demo_lib =
     \<lparr>py_float = map_of [(''30.0'', 30), (''-97.0'', - 97), (''32.0'', 32), (''30.5'', 30.5)],
      py_str = (\<lambda>v. case v of
                  JFloat x \<Rightarrow> (if x = 30 then ''30.0'' else if x = - 97 then ''-97.0''
                               else if x = 32 then ''32.0'' else if x = 30.5 then ''30.5''
                               else ''0.0'')
                | _ \<Rightarrow> ''0'')\<rparr>"

definition demo_hit :: json where
  "demo_hit = JObj [(''lat'', JStr ''30.0''), (''lon'', JStr ''-97.0''),
                    (''display_name'', JStr ''1 Main St, Austin'')]"

definition demo_row :: "string \<Rightarrow> string \<Rightarrow> string \<Rightarrow> string \<Rightarrow> json" where
  "demo_row n rid la lo =
     JObj [(''FacName'', JStr n), (''RegistryID'', JStr rid),
           (''Lat83'', JStr la), (''Long83'', JStr lo)]"

definition demo_echo_body :: json where
  "demo_echo_body =
     JObj [(''Results'', JObj [(''Facilities'',
        JArr [demo_row ''Plant A'' ''110'' ''30.0'' ''-97.0'',
              demo_row ''Plant B'' ''111'' ''32.0'' ''-97.0'',
              demo_row ''Plant A bis'' ''110'' ''30.0'' ''-97.0''])])]"

definition demo_usgs_body :: string where
  "demo_usgs_body =
     ''# sites'' @ [CHR 0x0A] @
     ''agency'' @ [CHR 0x09] @ ''site_no'' @ [CHR 0x0A] @
     ''5s'' @ [CHR 0x09] @ ''15s'' @ [CHR 0x0A] @
     ''USGS'' @ [CHR 0x09] @ ''081'' @ [CHR 0x09] @ ''River X'' @ [CHR 0x09] @ ''ST'' @
        [CHR 0x09] @ ''30.0'' @ [CHR 0x09] @ ''-97.0'' @ [CHR 0x0A]"

definition demo_providers :: providers where
  "demo_providers =
     \<lparr>nominatim = (\<lambda>q. if q = ''1 Main St'' then Inr (JArr [demo_hit]) else Inr (JArr [])),
      echo = (\<lambda>lat lon radius. Inr demo_echo_body),
      usgs = (\<lambda>bbox. Inr demo_usgs_body)\<rparr>"

definition demo_req :: ReportRequest where
  "demo_req = \<lparr>req_address = ''1 Main St, Suite 2'', req_radius_miles = 50\<rparr>"

definition demo_raw :: "string \<Rightarrow> string \<Rightarrow> real \<Rightarrow> real \<Rightarrow> string \<Rightarrow> raw" where
  "demo_raw n rid la lo src =
     \<lparr>raw_name = JStr n, raw_registry_id = JStr rid,
      raw_latitude = PFloat la, raw_longitude = PFloat lo, raw_source = src\<rparr>"

definition demo_facility :: "string \<Rightarrow> string \<Rightarrow> string \<Rightarrow> Facility" where
  "demo_facility n rid src =
     \<lparr>name = n, registry_id = rid, latitude = 30, longitude = - 97,
      distance_miles = 0, direction = ''N'', source = src\<rparr>"

definition demo_response :: ReportResponse where
  "demo_response =
     \<lparr>address = ''1 Main St'', center_latitude = 30, center_longitude = - 97,
      radius_miles = 50, total_findings = 2,
      facilities = [demo_facility ''Plant A'' ''110'' ''EPA_ECHO'',
                    demo_facility ''River X'' ''081'' ''USGS'']\<rparr>"

text \<open>
  A second answer of ECHO: a record whose registry id contains the separator of the
  keys, and a record without a registry id, while USGS times out.
\<close>

definition demo_collision_body :: json where
  "demo_collision_body =
     JObj [(''Results'', JObj [(''Facilities'',
        JArr [demo_row ''Depot'' ''Yard|30.0|-97.0'' ''30.0'' ''-97.0'',
              JObj [(''FacName'', JStr ''Yard''), (''Lat83'', JStr ''30.0''),
                    (''Long83'', JStr ''-97.0'')]])])]"

definition demo_collision_providers :: providers where
  "demo_collision_providers =
     demo_providers
       \<lparr>echo := (\<lambda>lat lon radius. Inr demo_collision_body),
        usgs := (\<lambda>bbox. Inl (TimeoutException ''timed out''))\<rparr>"

section \<open>Properties\<close>

subsection \<open>The matcher\<close>

text \<open>
  What \<open>rmatch\<close> returns is what the continuation returned on a rest of the text, and
  a consuming pattern has taken at least one character before it.
\<close>

lemma star_sound:
  "star p s k = Some t \<Longrightarrow> \<exists>m u. s = m @ u \<and> list_all p m \<and> k u = Some t"
proof (induction s)
  case Nil
  then show ?case by simp
next
  case (Cons c s)
  show ?case
  proof (cases "p c \<and> star p s k \<noteq> None")
    case True
    with Cons.prems have "star p s k = Some t" by (auto split: option.splits)
    from Cons.IH [OF this] obtain m u where "s = m @ u" "list_all p m" "k u = Some t" by blast
    with True have "c # s = (c # m) @ u \<and> list_all p (c # m) \<and> k u = Some t" by simp
    then show ?thesis by blast
  next
    case False
    with Cons.prems have "k (c # s) = Some t" by (auto split: option.splits if_splits)
    then have "c # s = [] @ (c # s) \<and> list_all p [] \<and> k (c # s) = Some t" by simp
    then show ?thesis by blast
  qed
qed

lemma rmatch_sound:
  "rmatch r s k = Some t \<Longrightarrow>
   \<exists>m u. s = m @ u \<and> (consuming r \<longrightarrow> m \<noteq> []) \<and> k u = Some t"
proof (induction r arbitrary: s k)
  case Eps
  then show ?case by auto
next
  case (Chr p)
  then obtain c u where "s = c # u" "p c" "k u = Some t"
    by (auto split: list.splits if_splits)
  then have "s = [c] @ u \<and> [c] \<noteq> [] \<and> k u = Some t" by simp
  then show ?case by blast
next
  case (Star p)
  then have "star p s k = Some t" by simp
  from star_sound [OF this] show ?case by auto
next
  case (Seq a b)
  then have "rmatch a s (\<lambda>x. rmatch b x k) = Some t" by simp
  from Seq.IH(1) [OF this] obtain m1 u1 where
    1: "s = m1 @ u1" "consuming a \<longrightarrow> m1 \<noteq> []" "rmatch b u1 k = Some t" by blast
  from Seq.IH(2) [OF 1(3)] obtain m2 u2 where
    2: "u1 = m2 @ u2" "consuming b \<longrightarrow> m2 \<noteq> []" "k u2 = Some t" by blast
  from 1 2
  have "s = (m1 @ m2) @ u2 \<and> (consuming (Seq a b) \<longrightarrow> m1 @ m2 \<noteq> []) \<and> k u2 = Some t"
    by auto
  then show ?case by blast
next
  case (Alt a b)
  then have "rmatch a s k = Some t \<or> rmatch b s k = Some t"
    by (auto split: option.splits)
  then show ?case
  proof
    assume "rmatch a s k = Some t"
    from Alt.IH(1) [OF this] show ?thesis by auto
  next
    assume "rmatch b s k = Some t"
    from Alt.IH(2) [OF this] show ?thesis by auto
  qed
next
  case (Opt a)
  then have "rmatch a s k = Some t \<or> k s = Some t"
    by (auto split: option.splits)
  then show ?case
  proof
    assume "rmatch a s k = Some t"
    from Opt.IH [OF this] show ?thesis by auto
  next
    assume "k s = Some t"
    then show ?thesis by auto
  qed
next
  case (Look a)
  then have "k s = Some t" by (auto split: option.splits)
  then show ?case by auto
next
  case Eos
  then have "k s = Some t" by (auto split: if_splits)
  then show ?case by auto
qed

lemma dropWhile_all: "list_all p m \<Longrightarrow> dropWhile p (m @ u) = dropWhile p u"
  by (induction m) auto

lemma lookahead_sound:
  assumes "rmatch (Alt (Seq (Star isspace) (Lit CHR '','')) (Seq (Star isspace) Eos)) s Some
             = Some x"
  shows "before_comma_or_end s"
proof -
  from assms have
    "star isspace s (\<lambda>t. rmatch (Lit CHR '','') t Some) = Some x \<or>
     star isspace s (\<lambda>t. rmatch Eos t Some) = Some x"
    by (auto split: option.splits)
  then show ?thesis
  proof
    assume "star isspace s (\<lambda>t. rmatch (Lit CHR '','') t Some) = Some x"
    from star_sound [OF this] obtain m u where
      "s = m @ u" "list_all isspace m" "rmatch (Lit CHR '','') u Some = Some x" by blast
    moreover from this(3) have "u = CHR '','' # x"
      by (auto simp: Lit_def split: list.splits if_splits)
    ultimately show ?thesis
      by (simp add: before_comma_or_end_def dropWhile_all isspace_def)
  next
    assume "star isspace s (\<lambda>t. rmatch Eos t Some) = Some x"
    from star_sound [OF this] obtain m u where
      "s = m @ u" "list_all isspace m" "rmatch Eos u Some = Some x" by blast
    moreover from this(3) have "u = [] \<or> u = [CHR 0x0A]"
      by (auto split: if_splits)
    ultimately show ?thesis
      by (auto simp add: before_comma_or_end_def dropWhile_all isspace_def)
  qed
qed

lemma unit_group_consuming:
  "consuming (Alt
          (Seq (Lit CHR ''#'') (Seq (Star isspace) (Seq (Plus isdigit) (Opt (Chr isalpha)))))
          (Seq (Alts (map Word_ci unit_labels))
            (Seq (Plus (\<lambda>c. c = CHR ''.'' \<or> isspace c \<or> c = CHR '':''))
                 (Plus (\<lambda>c. isalpha c \<or> isdigit c \<or> c = CHR ''-'')))))"
  by (simp add: Lit_def Plus_def)

lemma unit_match_sound:
  assumes "rmatch UNIT_PATTERNS s Some = Some rest"
  shows "\<exists>m. m \<noteq> [] \<and> s = m @ rest \<and> before_comma_or_end rest"
proof -
  let ?G = "Alt
          (Seq (Lit CHR ''#'') (Seq (Star isspace) (Seq (Plus isdigit) (Opt (Chr isalpha)))))
          (Seq (Alts (map Word_ci unit_labels))
            (Seq (Plus (\<lambda>c. c = CHR ''.'' \<or> isspace c \<or> c = CHR '':''))
                 (Plus (\<lambda>c. isalpha c \<or> isdigit c \<or> c = CHR ''-''))))"
  let ?LA = "Alt (Seq (Star isspace) (Lit CHR '','')) (Seq (Star isspace) Eos)"
  from assms
  have "star isspace s (\<lambda>t. rmatch ?G t (\<lambda>u. rmatch (Look ?LA) u Some)) = Some rest"
    by (simp add: UNIT_PATTERNS_def)
  from star_sound [OF this] obtain m1 u1 where
    1: "s = m1 @ u1" "rmatch ?G u1 (\<lambda>u. rmatch (Look ?LA) u Some) = Some rest" by blast
  from rmatch_sound [OF 1(2)] unit_group_consuming obtain m2 u2 where
    2: "u1 = m2 @ u2" "m2 \<noteq> []" "rmatch (Look ?LA) u2 Some = Some rest" by blast
  from 2(3) obtain x where 3: "rmatch ?LA u2 Some = Some x" "u2 = rest"
    by (auto simp del: rmatch.simps(5) simp add: rmatch.simps(7) split: option.splits)
  from lookahead_sound [OF 3(1)] 3(2) have "before_comma_or_end rest" by simp
  with 1 2 3 have "m1 @ m2 \<noteq> [] \<and> s = (m1 @ m2) @ rest \<and> before_comma_or_end rest" by simp
  then show ?thesis by blast
qed

text \<open>The text of a match is made of characters the pattern can take.\<close>

lemma list_all_weaken: "list_all p m \<Longrightarrow> (\<And>c. p c \<Longrightarrow> q c) \<Longrightarrow> list_all q m"
  by (induction m) auto

lemma rmatch_takes:
  "rmatch r s k = Some t \<Longrightarrow> \<exists>m u. s = m @ u \<and> list_all (may_take r) m \<and> k u = Some t"
proof (induction r arbitrary: s k)
  case Eps
  then have "s = [] @ s \<and> list_all (may_take Eps) [] \<and> k s = Some t" by simp
  then show ?case by blast
next
  case (Chr p)
  then obtain c u where "s = c # u" "p c" "k u = Some t"
    by (auto split: list.splits if_splits)
  then have "s = [c] @ u \<and> list_all (may_take (Chr p)) [c] \<and> k u = Some t" by simp
  then show ?case by blast
next
  case (Star p)
  then have "star p s k = Some t" by simp
  from star_sound [OF this] obtain m u where "s = m @ u" "list_all p m" "k u = Some t" by blast
  moreover from this(2) have "list_all (may_take (Star p)) m"
    by (rule list_all_weaken) simp
  ultimately show ?case by blast
next
  case (Seq a b)
  then have "rmatch a s (\<lambda>x. rmatch b x k) = Some t" by simp
  from Seq.IH(1) [OF this] obtain m1 u1 where
    1: "s = m1 @ u1" "list_all (may_take a) m1" "rmatch b u1 k = Some t" by blast
  from Seq.IH(2) [OF 1(3)] obtain m2 u2 where
    2: "u1 = m2 @ u2" "list_all (may_take b) m2" "k u2 = Some t" by blast
  have "list_all (may_take (Seq a b)) m1" using 1(2) by (rule list_all_weaken) simp
  moreover have "list_all (may_take (Seq a b)) m2" using 2(2) by (rule list_all_weaken) simp
  ultimately have "s = (m1 @ m2) @ u2 \<and> list_all (may_take (Seq a b)) (m1 @ m2) \<and> k u2 = Some t"
    using 1 2 by simp
  then show ?case by blast
next
  case (Alt a b)
  then have "rmatch a s k = Some t \<or> rmatch b s k = Some t"
    by (auto split: option.splits)
  then show ?case
  proof
    assume "rmatch a s k = Some t"
    from Alt.IH(1) [OF this] obtain m u where
      "s = m @ u" "list_all (may_take a) m" "k u = Some t" by blast
    moreover from this(2) have "list_all (may_take (Alt a b)) m"
      by (rule list_all_weaken) simp
    ultimately show ?thesis by blast
  next
    assume "rmatch b s k = Some t"
    from Alt.IH(2) [OF this] obtain m u where
      "s = m @ u" "list_all (may_take b) m" "k u = Some t" by blast
    moreover from this(2) have "list_all (may_take (Alt a b)) m"
      by (rule list_all_weaken) simp
    ultimately show ?thesis by blast
  qed
next
  case (Opt a)
  then have "rmatch a s k = Some t \<or> k s = Some t"
    by (auto split: option.splits)
  then show ?case
  proof
    assume "rmatch a s k = Some t"
    from Opt.IH [OF this] obtain m u where
      "s = m @ u" "list_all (may_take a) m" "k u = Some t" by blast
    moreover from this(2) have "list_all (may_take (Opt a)) m"
      by (rule list_all_weaken) simp
    ultimately show ?thesis by blast
  next
    assume "k s = Some t"
    then have "s = [] @ s \<and> list_all (may_take (Opt a)) [] \<and> k s = Some t" by simp
    then show ?thesis by blast
  qed
next
  case (Look a)
  then have "k s = Some t" by (auto split: option.splits)
  then have "s = [] @ s \<and> list_all (may_take (Look a)) [] \<and> k s = Some t" by simp
  then show ?case by blast
next
  case Eos
  then have "k s = Some t" by (auto split: if_splits)
  then have "s = [] @ s \<and> list_all (may_take Eos) [] \<and> k s = Some t" by simp
  then show ?case by blast
qed

lemma unit_takes_no_comma: "\<not> may_take UNIT_PATTERNS (CHR '','')"
  by code_simp

lemma unit_match_no_comma:
  assumes "rmatch UNIT_PATTERNS s Some = Some rest" "s = m @ rest"
  shows "CHR '','' \<notin> set m"
proof -
  from rmatch_takes [OF assms(1)] obtain m' u where
    "s = m' @ u" "list_all (may_take UNIT_PATTERNS) m'" "u = rest" by auto
  with assms(2) have "list_all (may_take UNIT_PATTERNS) m" by simp
  with unit_takes_no_comma show ?thesis by (auto simp: list_all_iff)
qed

lemma re_sub_empty_match:
  "rmatch r s Some = Some rest \<Longrightarrow> length rest < length s \<Longrightarrow>
   re_sub_empty r s = re_sub_empty r rest"
  by (cases s) auto

subsection \<open>Rounding and the geometry helpers\<close>

lemma py_round_int_0: "py_round_int 0 = 0"
  by (simp add: py_round_int_def)

lemma py_round_0: "py_round 0 n = 0"
  by (simp add: py_round_def py_round_int_0)

lemma py_round_int_lower: "x - 1 / 2 \<le> of_int (py_round_int x)"
  unfolding py_round_int_def Let_def by (auto; linarith)

lemma py_round_int_upper: "of_int (py_round_int x) \<le> x + 1 / 2"
  unfolding py_round_int_def Let_def by (auto; linarith)

lemma py_round_lower: "x - 1 / (2 * 10 ^ n) \<le> py_round x n"
proof -
  have "x * 10 ^ n - 1 / 2 \<le> of_int (py_round_int (x * 10 ^ n))"
    by (rule py_round_int_lower)
  then have "(x * 10 ^ n - 1 / 2) / 10 ^ n \<le> of_int (py_round_int (x * 10 ^ n)) / 10 ^ n"
    by (simp add: divide_right_mono)
  then show ?thesis by (simp add: py_round_def field_simps)
qed

lemma py_round_upper: "py_round x n \<le> x + 1 / (2 * 10 ^ n)"
proof -
  have "of_int (py_round_int (x * 10 ^ n)) \<le> x * 10 ^ n + 1 / 2"
    by (rule py_round_int_upper)
  then have "of_int (py_round_int (x * 10 ^ n)) / 10 ^ n \<le> (x * 10 ^ n + 1 / 2) / 10 ^ n"
    by (simp add: divide_right_mono)
  then show ?thesis by (simp add: py_round_def field_simps)
qed

lemma haversine_a_self: "haversine_a lat lon lat lon = 0"
  by (simp add: haversine_a_def radians_def)

lemma haversine_self: "haversine lat lon lat lon = 0"
  by (simp add: haversine_def haversine_a_self atan2_def py_round_0)

lemma haversine_a_sym: "haversine_a lat1 lon1 lat2 lon2 = haversine_a lat2 lon2 lat1 lon1"
proof -
  have s: "(sin (- x))\<^sup>2 = (sin x)\<^sup>2" for x :: real by simp
  have "radians (lat2 - lat1) / 2 = - (radians (lat1 - lat2) / 2)"
       "radians (lon2 - lon1) / 2 = - (radians (lon1 - lon2) / 2)"
    by (simp_all add: radians_def field_simps)
  then show ?thesis
    unfolding haversine_a_def Let_def by (simp only: s mult.commute)
qed

lemma direction_index_self: "direction_index lat lon lat lon = 0"
  by (simp add: direction_index_def atan2_def degrees_def py_fmod_def py_round_int_0)

lemma cardinal_direction_self: "cardinal_direction lat lon lat lon = ''N''"
  by (simp add: cardinal_direction_def direction_index_self directions_def)

text \<open>
  On a meridian the distance is the arc of the difference in latitude: the angle
  that \<open>atan2\<close> recovers from the sine and cosine of half the arc is that half.
\<close>

lemma atan2_sin_cos:
  assumes "0 \<le> x" "x \<le> pi / 2"
  shows "atan2 (sin x) (cos x) = x"
proof (cases "x = pi / 2")
  case True
  show ?thesis unfolding True by (simp add: atan2_def)
next
  case False
  with assms have lt: "x < pi / 2" by simp
  with assms have c: "0 < cos x" by (intro cos_gt_zero_pi) auto
  have "arctan (tan x) = x" using assms lt by (intro arctan_tan) auto
  with c show ?thesis by (simp add: atan2_def tan_def)
qed

lemma haversine_same_lon:
  assumes "0 \<le> lat2 - lat1" "lat2 - lat1 \<le> 180"
  shows "haversine lat1 lon lat2 lon = py_round (3958.8 * radians (lat2 - lat1)) 2"
proof -
  define x where "x = radians (lat2 - lat1) / 2"
  have "(lat2 - lat1) * pi \<le> 180 * pi"
    using assms(2) by (intro mult_right_mono) auto
  then have x: "0 \<le> x" "x \<le> pi / 2"
    using assms(1) by (simp_all add: x_def radians_def)
  have a: "haversine_a lat1 lon lat2 lon = (sin x)\<^sup>2"
    by (simp add: haversine_a_def x_def radians_def)
  have s: "0 \<le> sin x" using x by (intro sin_ge_zero) auto
  have c: "0 \<le> cos x" using x by (intro cos_ge_zero) auto
  have "1 - (sin x)\<^sup>2 = (cos x)\<^sup>2"
    using sin_cos_squared_add [of x] by linarith
  then have "atan2 (sqrt ((sin x)\<^sup>2)) (sqrt (1 - (sin x)\<^sup>2)) = atan2 (sin x) (cos x)"
    using s c by simp
  also have "\<dots> = x" using x by (rule atan2_sin_cos)
  finally have "2 * atan2 (sqrt (haversine_a lat1 lon lat2 lon))
                        (sqrt (1 - haversine_a lat1 lon lat2 lon)) = radians (lat2 - lat1)"
    by (simp add: a x_def)
  then show ?thesis
    by (simp only: haversine_def Let_def)
qed

text \<open>
  \<^verbatim>\<open>math.sqrt\<close> raises on a negative number. The two numbers \<^verbatim>\<open>haversine\<close> takes the root
  of are never negative: \<open>a\<close> is a mean of two squares weighted by a third, so it lies
  between 0 and 1.
\<close>

lemma cos_prod_sq: "cos (v - u) * cos (v + u) = (cos v)\<^sup>2 - (sin u)\<^sup>2" for u v :: real
proof -
  have "cos (v - u) * cos (v + u) =
          (cos v * cos u + sin v * sin u) * (cos v * cos u - sin v * sin u)"
    by (simp only: cos_add cos_diff)
  also have "\<dots> = (cos v)\<^sup>2 * (cos u)\<^sup>2 - (sin v)\<^sup>2 * (sin u)\<^sup>2"
    by (simp add: power2_eq_square algebra_simps)
  also have "\<dots> = (cos v)\<^sup>2 * (1 - (sin u)\<^sup>2) - (1 - (cos v)\<^sup>2) * (sin u)\<^sup>2"
    by (simp only: cos_squared_eq [of u] sin_squared_eq [of v])
  also have "\<dots> = (cos v)\<^sup>2 - (sin u)\<^sup>2"
    by (simp add: algebra_simps)
  finally show ?thesis .
qed

lemma haversine_a_convex:
  "haversine_a lat1 lon1 lat2 lon2 =
     (1 - (sin (radians (lon2 - lon1) / 2))\<^sup>2) * (sin (radians (lat2 - lat1) / 2))\<^sup>2 +
     (sin (radians (lon2 - lon1) / 2))\<^sup>2 * (cos (radians (lat1 + lat2) / 2))\<^sup>2"
proof -
  define u where "u = radians (lat2 - lat1) / 2"
  define v where "v = radians (lat1 + lat2) / 2"
  define s where "s = (sin (radians (lon2 - lon1) / 2))\<^sup>2"
  have "radians lat1 = v - u" "radians lat2 = v + u"
    by (simp_all add: u_def v_def radians_def field_simps)
  then have c: "cos (radians lat1) * cos (radians lat2) = (cos v)\<^sup>2 - (sin u)\<^sup>2"
    by (simp add: cos_prod_sq)
  have "haversine_a lat1 lon1 lat2 lon2 =
          (sin u)\<^sup>2 + (cos (radians lat1) * cos (radians lat2)) * s"
    by (simp add: haversine_a_def u_def s_def)
  also have "\<dots> = (1 - s) * (sin u)\<^sup>2 + s * (cos v)\<^sup>2"
    unfolding c by (simp add: algebra_simps)
  finally show ?thesis
    unfolding u_def v_def s_def .
qed

lemma haversine_a_range:
  "0 \<le> haversine_a lat1 lon1 lat2 lon2 \<and> haversine_a lat1 lon1 lat2 lon2 \<le> 1"
proof -
  define s where "s = (sin (radians (lon2 - lon1) / 2))\<^sup>2"
  define p where "p = (sin (radians (lat2 - lat1) / 2))\<^sup>2"
  define q where "q = (cos (radians (lat1 + lat2) / 2))\<^sup>2"
  have s: "0 \<le> s" "s \<le> 1" and p: "0 \<le> p" "p \<le> 1" and q: "0 \<le> q" "q \<le> 1"
    by (simp_all add: s_def p_def q_def abs_square_le_1)
  have a: "haversine_a lat1 lon1 lat2 lon2 = (1 - s) * p + s * q"
    unfolding s_def p_def q_def by (rule haversine_a_convex)
  have "0 \<le> (1 - s) * p" "0 \<le> s * q" using s p q by simp_all
  moreover have "(1 - s) * p \<le> (1 - s) * 1" using s p by (intro mult_left_mono) auto
  moreover have "s * q \<le> s * 1" using s q by (intro mult_left_mono) auto
  ultimately show ?thesis unfolding a by simp
qed

text \<open>
  The index into \<^verbatim>\<open>directions\<close> is always one of its eight positions, and the four
  axes get the four main directions.
\<close>

lemma direction_index_range:
  "0 \<le> direction_index lat1 lon1 lat2 lon2 \<and> direction_index lat1 lon1 lat2 lon2 < 8"
  by (simp add: direction_index_def Let_def)

lemma cardinal_direction_defined:
  "nat (direction_index lat1 lon1 lat2 lon2) < length directions"
proof -
  have "length directions = 8" by (simp add: directions_def)
  moreover have "nat (direction_index lat1 lon1 lat2 lon2) < 8"
    using direction_index_range [of lat1 lon1 lat2 lon2] by linarith
  ultimately show ?thesis by simp
qed

lemma py_round_int_of_int: "py_round_int (of_int k) = k"
  by (simp add: py_round_int_def)

lemma cardinal_direction_axes:
  "cardinal_direction 0 0 1 0 = ''N''"
  "cardinal_direction 0 0 0 1 = ''E''"
  "cardinal_direction 0 0 (- 1) 0 = ''S''"
  "cardinal_direction 0 0 0 (- 1) = ''W''"
proof -
  have f: "py_fmod 360 360 = 0" "py_fmod 450 360 = 90" "py_fmod 540 360 = 180"
    "py_fmod 270 360 = 270"
    by (simp_all add: py_fmod_def)
  have r: "py_round_int 0 = 0" "py_round_int 2 = 2" "py_round_int 4 = 4" "py_round_int 6 = 6"
    using py_round_int_of_int [of 0] py_round_int_of_int [of 2] py_round_int_of_int [of 4]
      py_round_int_of_int [of 6] by simp_all
  show "cardinal_direction 0 0 1 0 = ''N''"
    by (simp add: cardinal_direction_def direction_index_def atan2_def degrees_def f r
          directions_def)
  show "cardinal_direction 0 0 0 1 = ''E''"
    by (simp add: cardinal_direction_def direction_index_def atan2_def degrees_def f r
          directions_def)
  show "cardinal_direction 0 0 (- 1) 0 = ''S''"
    by (simp add: cardinal_direction_def direction_index_def atan2_def degrees_def f r
          directions_def)
  show "cardinal_direction 0 0 0 (- 1) = ''W''"
    by (simp add: cardinal_direction_def direction_index_def atan2_def degrees_def f r
          directions_def)
qed

lemma cardinal_direction_north:
  assumes "lat1 < lat2"
  shows "cardinal_direction lat1 lon lat2 lon = ''N''"
proof -
  have "py_fmod 360 360 = 0" by (simp add: py_fmod_def)
  with assms show ?thesis
    by (simp add: cardinal_direction_def direction_index_def atan2_def degrees_def
          py_round_int_0 directions_def)
qed

text \<open>Rounding does not cross a whole number, and leaves a whole number as it is.\<close>

lemma py_round_int_ge: "of_int m \<le> y \<Longrightarrow> m \<le> py_round_int y"
proof -
  assume "of_int m \<le> y"
  then have "m \<le> \<lfloor>y\<rfloor>" by (simp add: le_floor_iff)
  moreover have "\<lfloor>y\<rfloor> \<le> py_round_int y" by (simp add: py_round_int_def Let_def)
  ultimately show ?thesis by simp
qed

lemma py_round_int_le: "y \<le> of_int m \<Longrightarrow> py_round_int y \<le> m"
proof (cases "y = of_int m")
  case True
  then show ?thesis by (simp add: py_round_int_of_int)
next
  case False
  assume "y \<le> of_int m"
  with False have "y < of_int m" by simp
  then have "\<lfloor>y\<rfloor> < m" by (simp add: floor_less_iff)
  moreover have "py_round_int y \<le> \<lfloor>y\<rfloor> + 1" by (simp add: py_round_int_def Let_def)
  ultimately show ?thesis by simp
qed

lemma py_round_ge: "of_int k \<le> x \<Longrightarrow> of_int k \<le> py_round x n"
proof -
  assume "of_int k \<le> x"
  then have "of_int (k * 10 ^ n) \<le> x * 10 ^ n" by (simp add: mult_right_mono)
  then have "k * 10 ^ n \<le> py_round_int (x * 10 ^ n)" by (rule py_round_int_ge)
  then have "real_of_int (k * 10 ^ n) \<le> of_int (py_round_int (x * 10 ^ n))"
    by (simp only: of_int_le_iff)
  then show ?thesis by (simp add: py_round_def field_simps)
qed

lemma py_round_le: "x \<le> of_int k \<Longrightarrow> py_round x n \<le> of_int k"
proof -
  assume "x \<le> of_int k"
  then have "x * 10 ^ n \<le> of_int (k * 10 ^ n)" by (simp add: mult_right_mono)
  then have "py_round_int (x * 10 ^ n) \<le> k * 10 ^ n" by (rule py_round_int_le)
  then have "real_of_int (py_round_int (x * 10 ^ n)) \<le> of_int (k * 10 ^ n)"
    by (simp only: of_int_le_iff)
  then show ?thesis by (simp add: py_round_def field_simps)
qed

lemma py_round_of_int: "py_round (of_int k) n = of_int k"
proof -
  have "py_round_int (of_int k * 10 ^ n) = k * 10 ^ n"
    using py_round_int_of_int [of "k * 10 ^ n"] by simp
  then show ?thesis by (simp add: py_round_def)
qed

lemma spec_lon_delta_nonneg: "0 \<le> r \<Longrightarrow> 0 \<le> spec_lon_delta lat r"
  by (auto simp: spec_lon_delta_def)

subsection \<open>What a successful report is made of\<close>

lemma report_InrE:
  assumes "report L P req = Inr r"
  obtains geo epa facs where
    "geocode_address L (nominatim P) (req_address req) = Inr geo"
    "fetch_epa_echo L (echo P) (geo_latitude geo) (geo_longitude geo) (req_radius_miles req)
       = Inr epa"
    "collect L (geo_latitude geo) (geo_longitude geo) (req_radius_miles req)
       (epa @ fetch_usgs L (usgs P) (geo_latitude geo) (geo_longitude geo)
                (req_radius_miles req))
       {} [] = Inr facs"
    "r = \<lparr>address = cleaned_address geo,
          center_latitude = geo_latitude geo,
          center_longitude = geo_longitude geo,
          radius_miles = req_radius_miles req,
          total_findings = length (sort_key distance_miles facs),
          facilities = sort_key distance_miles facs\<rparr>"
  using assms unfolding report_def Let_def
  by (auto split: sum.splits)

lemma validate_ReportRequest_Inr:
  "validate_ReportRequest a r = Inr req \<Longrightarrow>
   req_address req = strip a \<and> req_address req \<noteq> [] \<and>
   0 < req_radius_miles req \<and> req_radius_miles req \<le> 50"
  by (auto simp: validate_ReportRequest_def split: if_splits)

lemma geocode_address_cleaned:
  "geocode_address L get a = Inr geo \<Longrightarrow> cleaned_address geo = strip_unit a"
  unfolding geocode_address_def Let_def
  by (auto split: sum.splits if_splits)

lemma make_Facility_distance:
  "make_Facility r d dir = Inr f \<Longrightarrow> distance_miles f = d"
  unfolding make_Facility_def by (auto split: json.splits)

subsection \<open>The sample run, evaluated\<close>

lemma demo_far: "50 < haversine 30 (- 97) 32 (- 97)"
proof -
  have h: "haversine 30 (- 97) 32 (- 97) = py_round (3958.8 * radians (32 - 30)) 2"
    by (rule haversine_same_lon) simp_all
  have "3958.8 * (2 * 2 / 180) \<le> 3958.8 * radians (32 - 30)"
    using pi_ge_two by (simp add: radians_def)
  moreover have "3958.8 * radians (32 - 30) - 1 / (2 * 10 ^ 2)
                   \<le> py_round (3958.8 * radians (32 - 30)) 2"
    by (rule py_round_lower)
  ultimately show ?thesis unfolding h by simp
qed

lemma demo_near: "haversine 30 (- 97) 30.5 (- 97) \<le> 50"
proof -
  have h: "haversine 30 (- 97) 30.5 (- 97) = py_round (3958.8 * radians (30.5 - 30)) 2"
    by (rule haversine_same_lon) simp_all
  have "3958.8 * radians (30.5 - 30) \<le> 3958.8 * (0.5 * 4 / 180)"
    using pi_less_4 by (simp add: radians_def)
  moreover have "py_round (3958.8 * radians (30.5 - 30)) 2
                   \<le> 3958.8 * radians (30.5 - 30) + 1 / (2 * 10 ^ 2)"
    by (rule py_round_upper)
  ultimately show ?thesis unfolding h by simp
qed

lemma demo_geocode:
  "geocode_address demo_lib (nominatim demo_providers) (req_address demo_req) =
     Inr \<lparr>original_address = ''1 Main St, Suite 2'', cleaned_address = ''1 Main St'',
          geo_latitude = 30, geo_longitude = - 97,
          display_name = JStr ''1 Main St, Austin''\<rparr>"
  by code_simp

lemma demo_epa:
  "fetch_epa_echo demo_lib (echo demo_providers) lat lon radius =
     Inr [demo_raw ''Plant A'' ''110'' 30 (- 97) ''EPA_ECHO'',
          demo_raw ''Plant B'' ''111'' 32 (- 97) ''EPA_ECHO'',
          demo_raw ''Plant A bis'' ''110'' 30 (- 97) ''EPA_ECHO'']"
  by code_simp

lemma demo_usgs_loop:
  "usgs_loop demo_lib (splitlines demo_usgs_body) False [] =
     [demo_raw ''River X'' ''081'' 30 (- 97) ''USGS'']"
  by code_simp

lemma demo_usgs:
  "fetch_usgs demo_lib (usgs demo_providers) lat lon radius =
     [demo_raw ''River X'' ''081'' 30 (- 97) ''USGS'']"
  by (simp add: fetch_usgs_def demo_providers_def demo_usgs_loop)

lemma demo_raw_sel:
  "raw_latitude (demo_raw n rid la lo src) = PFloat la"
  "raw_longitude (demo_raw n rid la lo src) = PFloat lo"
  "make_Facility (demo_raw n rid la lo src) d dir =
     Inr \<lparr>name = n, registry_id = rid, latitude = la, longitude = lo,
          distance_miles = d, direction = dir, source = src\<rparr>"
  by (simp_all add: demo_raw_def make_Facility_def)

lemma demo_keys:
  "dedup_key demo_lib (demo_raw ''Plant A'' ''110'' 30 (- 97) ''EPA_ECHO'') = ''110|EPA_ECHO''"
  "dedup_key demo_lib (demo_raw ''Plant B'' ''111'' 32 (- 97) ''EPA_ECHO'') = ''111|EPA_ECHO''"
  "dedup_key demo_lib (demo_raw ''Plant A bis'' ''110'' 30 (- 97) ''EPA_ECHO'') = ''110|EPA_ECHO''"
  "dedup_key demo_lib (demo_raw ''River X'' ''081'' 30 (- 97) ''USGS'') = ''081|USGS''"
  by code_simp+

lemma demo_collect:
  "collect demo_lib 30 (- 97) 50
     [demo_raw ''Plant A'' ''110'' 30 (- 97) ''EPA_ECHO'',
      demo_raw ''Plant B'' ''111'' 32 (- 97) ''EPA_ECHO'',
      demo_raw ''Plant A bis'' ''110'' 30 (- 97) ''EPA_ECHO'',
      demo_raw ''River X'' ''081'' 30 (- 97) ''USGS''] {} [] =
   Inr [demo_facility ''Plant A'' ''110'' ''EPA_ECHO'',
        demo_facility ''River X'' ''081'' ''USGS'']"
  using demo_far
  by (simp add: demo_keys demo_raw_sel Let_def haversine_self cardinal_direction_self
        demo_facility_def)

lemma demo_facility_distance: "distance_miles (demo_facility n rid src) = 0"
  by (simp add: demo_facility_def)

lemma demo_report: "report demo_lib demo_providers demo_req = Inr demo_response"
proof -
  have r: "req_radius_miles demo_req = 50" by (simp add: demo_req_def)
  show ?thesis
    unfolding report_def r
    by (simp add: demo_geocode demo_epa demo_usgs demo_collect Let_def demo_response_def
          demo_facility_distance del: collect.simps)
qed

section \<open>The claims\<close>

subsection \<open>C1: every facility of a report lies within the radius\<close>

lemma collect_distance:
  "collect L lat lon radius rs seen acc = Inr out \<Longrightarrow>
   (\<forall>f \<in> set acc. distance_miles f \<le> radius) \<Longrightarrow>
   (\<forall>f \<in> set out. distance_miles f \<le> radius)"
proof (induction rs arbitrary: seen acc)
  case Nil
  then show ?case by simp
next
  case (Cons r rs)
  show ?case
  proof (cases "dedup_key L r \<in> seen")
    case True
    with Cons show ?thesis by simp
  next
    case False
    let ?d = "haversine lat lon (num_val (raw_latitude r)) (num_val (raw_longitude r))"
    show ?thesis
    proof (cases "radius < ?d")
      case True
      with False Cons.prems
      have "collect L lat lon radius rs (insert (dedup_key L r) seen) acc = Inr out"
        by (simp add: Let_def)
      from Cons.IH [OF this Cons.prems(2)] show ?thesis .
    next
      case near: False
      with False Cons.prems obtain f where
        f: "make_Facility r ?d
              (cardinal_direction lat lon (num_val (raw_latitude r)) (num_val (raw_longitude r)))
            = Inr f"
        and c: "collect L lat lon radius rs (insert (dedup_key L r) seen) (acc @ [f]) = Inr out"
        by (auto simp: Let_def split: sum.splits)
      from f have "distance_miles f = ?d" by (rule make_Facility_distance)
      with near Cons.prems(2) have "\<forall>g \<in> set (acc @ [f]). distance_miles g \<le> radius"
        by auto
      from Cons.IH [OF c this] show ?thesis .
    qed
  qed
qed

text \<open>
  Claim C1. For every report that \<open>report\<close> returns and every facility in it, the
  facility's \<open>distance_miles\<close> is at most the report's \<open>radius_miles\<close>, whatever the
  providers answered: a record whose computed distance exceeds the radius of the
  request is left out.
\<close>

theorem report_facilities_within_radius:
  assumes "report L P req = Inr r"
  shows "\<forall>f \<in> set (facilities r). distance_miles f \<le> radius_miles r"
proof -
  from assms obtain geo epa facs where
    "geocode_address L (nominatim P) (req_address req) = Inr geo"
    "fetch_epa_echo L (echo P) (geo_latitude geo) (geo_longitude geo) (req_radius_miles req)
       = Inr epa"
    and c: "collect L (geo_latitude geo) (geo_longitude geo) (req_radius_miles req)
          (epa @ fetch_usgs L (usgs P) (geo_latitude geo) (geo_longitude geo)
                   (req_radius_miles req))
          {} [] = Inr facs"
    and r: "r = \<lparr>address = cleaned_address geo,
                center_latitude = geo_latitude geo,
                center_longitude = geo_longitude geo,
                radius_miles = req_radius_miles req,
                total_findings = length (sort_key distance_miles facs),
                facilities = sort_key distance_miles facs\<rparr>"
    by (rule report_InrE)
  from collect_distance [OF c]
  have "\<forall>f \<in> set facs. distance_miles f \<le> req_radius_miles req" by simp
  with r show ?thesis by simp
qed

text \<open>
  The sample run: plant B, which ECHO returned from two degrees north, is not in the
  report, and the two facilities of the report are within the 50 miles asked for.
\<close>

theorem report_facilities_within_radius_witness:
  "report demo_lib demo_providers demo_req = Inr demo_response \<and>
   map name (facilities demo_response) = [''Plant A'', ''River X''] \<and>
   list_all (\<lambda>f. distance_miles f \<le> radius_miles demo_response) (facilities demo_response)"
  using report_facilities_within_radius [OF demo_report] demo_report
  by (simp add: list_all_iff demo_response_def demo_facility_def)

subsection \<open>C2: deduplication by a composite key\<close>

text \<open>
  The loop, one record at a time, and its result in one piece: the facilities are
  those of the records within the radius among the first occurrences of each key,
  in their order.
\<close>

lemma collect_step:
  "collect L lat lon radius (r # rest) seen acc =
     (if dedup_key L r \<in> seen then collect L lat lon radius rest seen acc
      else if radius < raw_distance lat lon r
        then collect L lat lon radius rest (insert (dedup_key L r) seen) acc
      else (case facility_of lat lon r of
              Inl e \<Rightarrow> Inl e
            | Inr f \<Rightarrow> collect L lat lon radius rest (insert (dedup_key L r) seen) (acc @ [f])))"
  by (simp add: Let_def raw_distance_def facility_of_def)

lemma keep_first_seen:
  "key r \<in> seen \<Longrightarrow>
   spec_keep_first key (filter (\<lambda>x. key x \<notin> seen) (r # rs)) =
   spec_keep_first key (filter (\<lambda>x. key x \<notin> seen) rs)"
  by simp

lemma keep_first_unseen:
  assumes "key r \<notin> seen"
  shows "spec_keep_first key (filter (\<lambda>x. key x \<notin> seen) (r # rs)) =
         r # spec_keep_first key (filter (\<lambda>x. key x \<notin> insert (key r) seen) rs)"
proof -
  have "filter (\<lambda>y. key y \<noteq> key r) (filter (\<lambda>x. key x \<notin> seen) rs) =
        filter (\<lambda>x. key x \<notin> insert (key r) seen) rs"
    by (induction rs) auto
  with assms show ?thesis by simp
qed

lemma collect_keep_first:
  "collect L lat lon radius rs seen acc = Inr out \<Longrightarrow>
   map Inr out =
     map Inr acc @
     map (facility_of lat lon)
       (filter (\<lambda>r. \<not> radius < raw_distance lat lon r)
          (spec_keep_first (dedup_key L) (filter (\<lambda>r. dedup_key L r \<notin> seen) rs)))"
proof (induction rs arbitrary: seen acc)
  case Nil
  then show ?case by simp
next
  case (Cons r rs)
  show ?case
  proof (cases "dedup_key L r \<in> seen")
    case True
    with Cons.prems have "collect L lat lon radius rs seen acc = Inr out"
      by (simp only: collect_step if_True)
    from Cons.IH [OF this] show ?thesis
      by (simp only: keep_first_seen [of "dedup_key L", OF True])
  next
    case False
    note kf = keep_first_unseen [of "dedup_key L", OF False]
    show ?thesis
    proof (cases "radius < raw_distance lat lon r")
      case True
      with False Cons.prems
      have "collect L lat lon radius rs (insert (dedup_key L r) seen) acc = Inr out"
        by (simp only: collect_step if_True if_False)
      from Cons.IH [OF this] True show ?thesis
        by (simp only: kf) simp
    next
      case near: False
      with False Cons.prems obtain f where
        f: "facility_of lat lon r = Inr f"
        and c: "collect L lat lon radius rs (insert (dedup_key L r) seen) (acc @ [f]) = Inr out"
        by (simp only: collect_step if_False split: sum.splits) auto
      from Cons.IH [OF c] near f show ?thesis
        by (simp only: kf) simp
    qed
  qed
qed

lemma collect_skips_seen_key:
  "dedup_key L r \<in> seen \<union> dedup_key L ` set pre \<Longrightarrow>
   collect L lat lon radius (pre @ r # post) seen acc =
   collect L lat lon radius (pre @ post) seen acc"
proof (induction pre arbitrary: seen acc)
  case Nil
  then show ?case by (simp only: collect_step append_Nil) simp
next
  case (Cons p pre)
  show ?case
  proof (cases "dedup_key L p \<in> seen")
    case True
    with Cons.prems have "dedup_key L r \<in> seen \<union> dedup_key L ` set pre" by auto
    from Cons.IH [OF this] True show ?thesis by (simp only: collect_step append_Cons if_True)
  next
    case False
    from Cons.prems
    have k: "dedup_key L r \<in> insert (dedup_key L p) seen \<union> dedup_key L ` set pre" by auto
    from Cons.IH [OF k] False show ?thesis
      by (simp only: collect_step append_Cons if_False split: sum.splits)
  qed
qed

lemma bar_split_right:
  assumes "x @ CHR ''|'' # y = x' @ CHR ''|'' # y'"
    and "CHR ''|'' \<notin> set y" "CHR ''|'' \<notin> set y'"
  shows "x = x' \<and> y = y'"
proof -
  have "takeWhile (\<lambda>c. c \<noteq> CHR ''|'') (rev (x @ CHR ''|'' # y)) = rev y"
    using assms(2) by (auto simp add: takeWhile_tail)
  moreover have "takeWhile (\<lambda>c. c \<noteq> CHR ''|'') (rev (x' @ CHR ''|'' # y')) = rev y'"
    using assms(3) by (auto simp add: takeWhile_tail)
  ultimately have "y = y'" using assms(1) by simp
  with assms(1) show ?thesis by simp
qed

text \<open>
  What the joined keys do give. Two records with the same id, present and not
  \<^verbatim>\<open>"N/A"\<close>, and the same source have the same key, and the later of them adds nothing
  to the loop. Two records with the id \<^verbatim>\<open>"N/A"\<close> whose coordinates are printed
  differently, without the separator, have different keys, and both become
  facilities when both are within the radius. And the facilities of a report are
  those of the first records of each key text, within the radius, sorted.
\<close>

lemma same_id_same_key:
  assumes "truthy (raw_registry_id r1)" "raw_registry_id r1 \<noteq> JStr ''N/A''"
    "raw_registry_id r2 = raw_registry_id r1" "raw_source r2 = raw_source r1"
  shows "dedup_key L r1 = dedup_key L r2"
  using assms by (simp add: dedup_key_def)

lemma collect_same_id_collapses:
  assumes "truthy (raw_registry_id r1)" "raw_registry_id r1 \<noteq> JStr ''N/A''"
    "raw_registry_id r2 = raw_registry_id r1" "raw_source r2 = raw_source r1"
  shows "collect L lat lon radius (xs @ r1 # ys @ r2 # zs) seen acc =
         collect L lat lon radius (xs @ r1 # ys @ zs) seen acc"
proof -
  from assms have "dedup_key L r1 = dedup_key L r2" by (rule same_id_same_key)
  then have "dedup_key L r2 \<in> seen \<union> dedup_key L ` set (xs @ r1 # ys)" by auto
  from collect_skips_seen_key [OF this, of lat lon radius zs acc]
  show ?thesis by simp
qed

lemma na_keys_differ:
  assumes na: "raw_registry_id n1 = JStr ''N/A''" "raw_registry_id n2 = JStr ''N/A''"
    and src: "raw_source n1 \<in> {''EPA_ECHO'', ''USGS''}" "raw_source n2 \<in> {''EPA_ECHO'', ''USGS''}"
    and bar: "CHR ''|'' \<notin> set (fstr L (num_json (raw_latitude n1)))"
             "CHR ''|'' \<notin> set (fstr L (num_json (raw_longitude n1)))"
             "CHR ''|'' \<notin> set (fstr L (num_json (raw_latitude n2)))"
             "CHR ''|'' \<notin> set (fstr L (num_json (raw_longitude n2)))"
    and diff: "fstr L (num_json (raw_latitude n1)) \<noteq> fstr L (num_json (raw_latitude n2)) \<or>
               fstr L (num_json (raw_longitude n1)) \<noteq> fstr L (num_json (raw_longitude n2))"
  shows "dedup_key L n1 \<noteq> dedup_key L n2"
proof
  assume eq: "dedup_key L n1 = dedup_key L n2"
  let ?a1 = "fstr L (num_json (raw_latitude n1))" and ?o1 = "fstr L (num_json (raw_longitude n1))"
  let ?a2 = "fstr L (num_json (raw_latitude n2))" and ?o2 = "fstr L (num_json (raw_longitude n2))"
  from src have s: "CHR ''|'' \<notin> set (raw_source n1)" "CHR ''|'' \<notin> set (raw_source n2)"
    by auto
  from eq na have
    "(fstr L (raw_name n1) @ CHR ''|'' # ?a1 @ CHR ''|'' # ?o1) @ CHR ''|'' # raw_source n1 =
     (fstr L (raw_name n2) @ CHR ''|'' # ?a2 @ CHR ''|'' # ?o2) @ CHR ''|'' # raw_source n2"
    by (simp add: dedup_key_def)
  from bar_split_right [OF this s] have
    "(fstr L (raw_name n1) @ CHR ''|'' # ?a1) @ CHR ''|'' # ?o1 =
     (fstr L (raw_name n2) @ CHR ''|'' # ?a2) @ CHR ''|'' # ?o2"
    by simp
  from bar_split_right [OF this bar(2) bar(4)] have
    o: "?o1 = ?o2" and "fstr L (raw_name n1) @ CHR ''|'' # ?a1 = fstr L (raw_name n2) @ CHR ''|'' # ?a2"
    by simp_all
  from bar_split_right [OF this(2) bar(1) bar(3)] have "?a1 = ?a2" by simp
  with o diff show False by simp
qed

lemma collect_two_distinct:
  assumes "dedup_key L n1 \<noteq> dedup_key L n2"
    and "facility_of lat lon n1 = Inr f1" "facility_of lat lon n2 = Inr f2"
    and "\<not> radius < raw_distance lat lon n1" "\<not> radius < raw_distance lat lon n2"
  shows "collect L lat lon radius [n1, n2] {} [] = Inr [f1, f2]"
  using assms by (simp only: collect_step) simp

lemma report_keeps_first_of_each_key:
  assumes "report L P req = Inr r"
  shows "\<exists>epa facs.
         fetch_epa_echo L (echo P) (center_latitude r) (center_longitude r) (radius_miles r)
           = Inr epa \<and>
         facilities r = sort_key distance_miles facs \<and>
         map Inr facs =
           map (facility_of (center_latitude r) (center_longitude r))
             (filter (\<lambda>x. \<not> radius_miles r
                             < raw_distance (center_latitude r) (center_longitude r) x)
                (spec_keep_first (dedup_key L)
                   (epa @ fetch_usgs L (usgs P) (center_latitude r) (center_longitude r)
                            (radius_miles r))))"
proof -
  from assms obtain geo epa facs where
    "geocode_address L (nominatim P) (req_address req) = Inr geo"
    and e: "fetch_epa_echo L (echo P) (geo_latitude geo) (geo_longitude geo)
              (req_radius_miles req) = Inr epa"
    and c: "collect L (geo_latitude geo) (geo_longitude geo) (req_radius_miles req)
          (epa @ fetch_usgs L (usgs P) (geo_latitude geo) (geo_longitude geo)
                   (req_radius_miles req))
          {} [] = Inr facs"
    and r: "r = \<lparr>address = cleaned_address geo,
                center_latitude = geo_latitude geo,
                center_longitude = geo_longitude geo,
                radius_miles = req_radius_miles req,
                total_findings = length (sort_key distance_miles facs),
                facilities = sort_key distance_miles facs\<rparr>"
    by (rule report_InrE)
  from collect_keep_first [OF c] e
  have "fetch_epa_echo L (echo P) (center_latitude r) (center_longitude r) (radius_miles r)
           = Inr epa \<and>
         facilities r = sort_key distance_miles facs \<and>
         map Inr facs =
           map (facility_of (center_latitude r) (center_longitude r))
             (filter (\<lambda>x. \<not> radius_miles r
                             < raw_distance (center_latitude r) (center_longitude r) x)
                (spec_keep_first (dedup_key L)
                   (epa @ fetch_usgs L (usgs P) (center_latitude r) (center_longitude r)
                            (radius_miles r))))"
    by (simp add: r)
  then show ?thesis by blast
qed

text \<open>
  The two consequences in the sample environment: the second record with the
  registry id of plant A adds nothing, and two sites named alike with the id \<^verbatim>\<open>N/A\<close>,
  half a degree apart, are both listed.
\<close>

lemma demo_same_id_collapses:
  "collect demo_lib 30 (- 97) 50
     [demo_raw ''Plant A'' ''110'' 30 (- 97) ''EPA_ECHO'',
      demo_raw ''Plant B'' ''111'' 32 (- 97) ''EPA_ECHO'',
      demo_raw ''Plant A bis'' ''110'' 30 (- 97) ''EPA_ECHO'',
      demo_raw ''River X'' ''081'' 30 (- 97) ''USGS''] {} [] =
   collect demo_lib 30 (- 97) 50
     [demo_raw ''Plant A'' ''110'' 30 (- 97) ''EPA_ECHO'',
      demo_raw ''Plant B'' ''111'' 32 (- 97) ''EPA_ECHO'',
      demo_raw ''River X'' ''081'' 30 (- 97) ''USGS''] {} []"
  using collect_same_id_collapses
          [of "demo_raw ''Plant A'' ''110'' 30 (- 97) ''EPA_ECHO''"
              "demo_raw ''Plant A bis'' ''110'' 30 (- 97) ''EPA_ECHO''"
              demo_lib 30 "- 97" 50 "[]"
              "[demo_raw ''Plant B'' ''111'' 32 (- 97) ''EPA_ECHO'']"
              "[demo_raw ''River X'' ''081'' 30 (- 97) ''USGS'']" "{}" "[]"]
  by (simp add: demo_raw_def del: collect.simps)

lemma demo_na_keys:
  "dedup_key demo_lib (demo_raw ''Yard'' ''N/A'' 30 (- 97) ''USGS'') = ''Yard|30.0|-97.0|USGS''"
  "dedup_key demo_lib (demo_raw ''Yard'' ''N/A'' 30.5 (- 97) ''USGS'') = ''Yard|30.5|-97.0|USGS''"
  by code_simp+

lemma demo_na_sites_both_listed:
  "collect demo_lib 30 (- 97) 50
     [demo_raw ''Yard'' ''N/A'' 30 (- 97) ''USGS'',
      demo_raw ''Yard'' ''N/A'' 30.5 (- 97) ''USGS''] {} [] =
     Inr [\<lparr>name = ''Yard'', registry_id = ''N/A'', latitude = 30, longitude = - 97,
           distance_miles = 0, direction = ''N'', source = ''USGS''\<rparr>,
          \<lparr>name = ''Yard'', registry_id = ''N/A'', latitude = 30.5, longitude = - 97,
           distance_miles = haversine 30 (- 97) 30.5 (- 97), direction = ''N'',
           source = ''USGS''\<rparr>]"
proof -
  let ?n1 = "demo_raw ''Yard'' ''N/A'' 30 (- 97) ''USGS''"
  let ?n2 = "demo_raw ''Yard'' ''N/A'' 30.5 (- 97) ''USGS''"
  have n: "cardinal_direction 30 (- 97) 30.5 (- 97) = ''N''"
    by (rule cardinal_direction_north) simp
  have f: "facility_of 30 (- 97) ?n1 =
             Inr \<lparr>name = ''Yard'', registry_id = ''N/A'', latitude = 30, longitude = - 97,
                  distance_miles = 0, direction = ''N'', source = ''USGS''\<rparr>"
          "facility_of 30 (- 97) ?n2 =
             Inr \<lparr>name = ''Yard'', registry_id = ''N/A'', latitude = 30.5, longitude = - 97,
                  distance_miles = haversine 30 (- 97) 30.5 (- 97), direction = ''N'',
                  source = ''USGS''\<rparr>"
    using n
    by (simp_all add: facility_of_def raw_distance_def demo_raw_sel haversine_self
          cardinal_direction_self)
  have d: "\<not> 50 < raw_distance 30 (- 97) ?n1" "\<not> 50 < raw_distance 30 (- 97) ?n2"
    using demo_near by (simp_all add: raw_distance_def demo_raw_sel haversine_self)
  have k: "dedup_key demo_lib ?n1 \<noteq> dedup_key demo_lib ?n2"
    using demo_na_keys by simp
  from k f d show ?thesis by (rule collect_two_distinct)
qed

text \<open>
  The run in which two keys coincide, evaluated: what ECHO's second answer is
  parsed to, the keys of its two records, the loop over them, and the report.
\<close>

lemma collision_keys:
  "dedup_key demo_lib (demo_raw ''Depot'' ''Yard|30.0|-97.0'' 30 (- 97) ''EPA_ECHO'')
     = ''Yard|30.0|-97.0|EPA_ECHO''"
  "dedup_key demo_lib (demo_raw ''Yard'' ''N/A'' 30 (- 97) ''EPA_ECHO'')
     = ''Yard|30.0|-97.0|EPA_ECHO''"
  by code_simp+

lemma empty_id_key:
  "dedup_key demo_lib (demo_raw ''Yard'' [] 30 (- 97) ''USGS'') = ''Yard|30.0|-97.0|USGS''"
  by code_simp

lemma demo_collision_epa:
  "fetch_epa_echo demo_lib (\<lambda>lat lon radius. Inr demo_collision_body) lat lon radius =
     Inr [demo_raw ''Depot'' ''Yard|30.0|-97.0'' 30 (- 97) ''EPA_ECHO'',
          demo_raw ''Yard'' ''N/A'' 30 (- 97) ''EPA_ECHO'']"
  by code_simp

lemma demo_collision_collect:
  "collect demo_lib 30 (- 97) 50
     [demo_raw ''Depot'' ''Yard|30.0|-97.0'' 30 (- 97) ''EPA_ECHO'',
      demo_raw ''Yard'' ''N/A'' 30 (- 97) ''EPA_ECHO''] {} [] =
     Inr [demo_facility ''Depot'' ''Yard|30.0|-97.0'' ''EPA_ECHO'']"
  by (simp add: collision_keys demo_raw_sel Let_def haversine_self cardinal_direction_self
        demo_facility_def)

lemma demo_collision_report:
  "report demo_lib demo_collision_providers demo_req =
     Inr \<lparr>address = ''1 Main St'', center_latitude = 30, center_longitude = - 97,
          radius_miles = 50, total_findings = 1,
          facilities = [demo_facility ''Depot'' ''Yard|30.0|-97.0'' ''EPA_ECHO'']\<rparr>"
proof -
  have r: "req_radius_miles demo_req = 50" by (simp add: demo_req_def)
  show ?thesis
    unfolding report_def r demo_collision_providers_def
    by (simp add: demo_geocode demo_collision_epa demo_collision_collect fetch_usgs_def Let_def
          del: collect.simps)
qed

text \<open>
  Claim C2 says that the key of a record is a pair \<open>(external_id, source)\<close> when the id
  is present and not \<^verbatim>\<open>"N/A"\<close> and a quadruple \<open>(name, latitude, longitude, source)\<close>
  otherwise, and that the first record of each key is kept; a key of the first shape
  is then never a key of the second, and the comment above the key in \<^verbatim>\<open>report\<close>
  gives the same purpose, not to collapse unrelated sites that share \<^verbatim>\<open>"N/A"\<close>. The
  code at an input where it does otherwise: ECHO returns a record named \<^verbatim>\<open>Depot\<close>
  with the registry id \<^verbatim>\<open>Yard|30.0|-97.0\<close> and then a record named \<^verbatim>\<open>Yard\<close> at
  \<open>(30.0, -97.0)\<close> without a registry id, which \<^verbatim>\<open>fetch_epa_echo\<close> gives the id \<^verbatim>\<open>N/A\<close>;
  USGS times out. The two keys of the claim differ, so both records are first of
  their key and both are to be listed. The code joins the parts of a key into one
  text with \<^verbatim>\<open>|\<close> between them, both records get the text
  \<^verbatim>\<open>Yard|30.0|-97.0|EPA_ECHO\<close>, the loop drops the second as a duplicate of the
  first, and the report lists one facility. The last line shows the other way into
  the second shape of the key, an id that is the empty text.
\<close>

theorem report_key_collision_drops_site:
  "fetch_epa_echo demo_lib (echo demo_collision_providers) 30 (- 97) 50 =
     Inr [demo_raw ''Depot'' ''Yard|30.0|-97.0'' 30 (- 97) ''EPA_ECHO'',
          demo_raw ''Yard'' ''N/A'' 30 (- 97) ''EPA_ECHO''] \<and>
   fetch_usgs demo_lib (usgs demo_collision_providers) 30 (- 97) 50 = [] \<and>
   spec_dedup_key (demo_raw ''Depot'' ''Yard|30.0|-97.0'' 30 (- 97) ''EPA_ECHO'') =
     IdKey (JStr ''Yard|30.0|-97.0'') ''EPA_ECHO'' \<and>
   spec_dedup_key (demo_raw ''Yard'' ''N/A'' 30 (- 97) ''EPA_ECHO'') =
     FieldKey (JStr ''Yard'') 30 (- 97) ''EPA_ECHO'' \<and>
   spec_keep_first spec_dedup_key
     [demo_raw ''Depot'' ''Yard|30.0|-97.0'' 30 (- 97) ''EPA_ECHO'',
      demo_raw ''Yard'' ''N/A'' 30 (- 97) ''EPA_ECHO''] =
     [demo_raw ''Depot'' ''Yard|30.0|-97.0'' 30 (- 97) ''EPA_ECHO'',
      demo_raw ''Yard'' ''N/A'' 30 (- 97) ''EPA_ECHO''] \<and>
   dedup_key demo_lib (demo_raw ''Depot'' ''Yard|30.0|-97.0'' 30 (- 97) ''EPA_ECHO'') =
     ''Yard|30.0|-97.0|EPA_ECHO'' \<and>
   dedup_key demo_lib (demo_raw ''Yard'' ''N/A'' 30 (- 97) ''EPA_ECHO'') =
     ''Yard|30.0|-97.0|EPA_ECHO'' \<and>
   report demo_lib demo_collision_providers demo_req =
     Inr \<lparr>address = ''1 Main St'', center_latitude = 30, center_longitude = - 97,
          radius_miles = 50, total_findings = 1,
          facilities = [demo_facility ''Depot'' ''Yard|30.0|-97.0'' ''EPA_ECHO'']\<rparr> \<and>
   dedup_key demo_lib (demo_raw ''Yard'' [] 30 (- 97) ''USGS'') = ''Yard|30.0|-97.0|USGS''"
proof -
  have k: "spec_dedup_key (demo_raw ''Depot'' ''Yard|30.0|-97.0'' 30 (- 97) ''EPA_ECHO'') =
             IdKey (JStr ''Yard|30.0|-97.0'') ''EPA_ECHO''"
          "spec_dedup_key (demo_raw ''Yard'' ''N/A'' 30 (- 97) ''EPA_ECHO'') =
             FieldKey (JStr ''Yard'') 30 (- 97) ''EPA_ECHO''"
    by (simp_all add: spec_dedup_key_def demo_raw_def)
  have e: "fetch_epa_echo demo_lib (echo demo_collision_providers) 30 (- 97) 50 =
     Inr [demo_raw ''Depot'' ''Yard|30.0|-97.0'' 30 (- 97) ''EPA_ECHO'',
          demo_raw ''Yard'' ''N/A'' 30 (- 97) ''EPA_ECHO'']"
    by (simp add: demo_collision_providers_def demo_collision_epa)
  have u: "fetch_usgs demo_lib (usgs demo_collision_providers) 30 (- 97) 50 = []"
    by (simp add: demo_collision_providers_def fetch_usgs_def)
  from k e u collision_keys empty_id_key demo_collision_report show ?thesis by simp
qed

subsection \<open>C3: what address normalization removes\<close>

text \<open>
  What the substitution removes at a match of the pattern: a text that is not empty
  and holds no comma, in front of a comma or the end of the text (after any white
  space); the scan goes on behind it.
\<close>

lemma unit_match_removed:
  assumes m: "rmatch UNIT_PATTERNS s Some = Some rest"
  shows "\<exists>m. m \<noteq> [] \<and> CHR '','' \<notin> set m \<and> s = m @ rest \<and> before_comma_or_end rest \<and>
           re_sub_empty UNIT_PATTERNS (m @ rest) = re_sub_empty UNIT_PATTERNS rest"
proof -
  from unit_match_sound [OF m] obtain m where
    1: "m \<noteq> []" "s = m @ rest" "before_comma_or_end rest" by blast
  then have "length rest < length s" by simp
  from re_sub_empty_match [OF m this] 1 unit_match_no_comma [OF m 1(2)]
  show ?thesis by auto
qed

lemma scenario_match:
  "rmatch UNIT_PATTERNS '' Suite 200, Austin, TX'' Some = Some '', Austin, TX''"
  by code_simp

text \<open>
  Claim C3 says that the qualifiers standing immediately before a comma or the end
  of the text are removed, and that \<^verbatim>\<open>strip_unit\<close> of
  \<^verbatim>\<open>123 Main St, Suite 200, Austin, TX\<close> is exactly \<^verbatim>\<open>123 Main St, Austin, TX\<close>. The code
  at this input: the pattern takes the white space before \<^verbatim>\<open>Suite 200\<close> and the
  qualifier, neither the comma before it nor the comma after it, and the result is
  \<^verbatim>\<open>123 Main St,, Austin, TX\<close>, with the two commas side by side. In the neighbouring
  cases the function does give the clean address: a qualifier at the end of the
  text leaves a comma behind, which \<^verbatim>\<open>rstrip(",")\<close> takes away, and a qualifier with no
  comma before it leaves the one comma after it. Every label of the pattern, in
  either case of letters, and the \<^verbatim>\<open>#\<close> form behave alike: removed before a comma or
  the end, with a doubled comma when a comma stands on either side, and left alone
  elsewhere.
\<close>

theorem strip_unit_scenario_doubles_comma:
  "strip_unit ''123 Main St, Suite 200, Austin, TX'' = ''123 Main St,, Austin, TX'' \<and>
   strip_unit ''123 Main St, Suite 200, Austin, TX'' \<noteq> ''123 Main St, Austin, TX'' \<and>
   strip_unit ''123 Main St Suite 200, Austin, TX'' = ''123 Main St, Austin, TX'' \<and>
   re_sub_empty UNIT_PATTERNS ''123 Main St, Suite 200'' = ''123 Main St,'' \<and>
   strip_unit ''123 Main St, Suite 200'' = ''123 Main St'' \<and>
   list_all (\<lambda>l. strip_unit (''9 Elm, '' @ l @ '' 4-B, Reno'') = ''9 Elm,, Reno'')
     [''Suite'', ''Ste'', ''Unit'', ''Apt'', ''Apartment'', ''Room'', ''Rm'', ''Floor'', ''Fl'',
      ''Bldg'', ''Building''] \<and>
   strip_unit ''9 Elm Rd, #4A, Reno'' = ''9 Elm Rd,, Reno'' \<and>
   strip_unit ''9 Elm Rd #150'' = ''9 Elm Rd'' \<and>
   strip_unit ''  5 Oak Ave apt. 4B  '' = ''5 Oak Ave'' \<and>
   strip_unit ''9 Elm Rd, Suite 2 East'' = ''9 Elm Rd, Suite 2 East''"
proof (intro conjI)
  show s: "strip_unit ''123 Main St, Suite 200, Austin, TX'' = ''123 Main St,, Austin, TX''"
    by code_simp
  show "strip_unit ''123 Main St, Suite 200, Austin, TX'' \<noteq> ''123 Main St, Austin, TX''"
    unfolding s by simp
  show "strip_unit ''123 Main St Suite 200, Austin, TX'' = ''123 Main St, Austin, TX''"
    by code_simp
  show "re_sub_empty UNIT_PATTERNS ''123 Main St, Suite 200'' = ''123 Main St,''"
    by code_simp
  show "strip_unit ''123 Main St, Suite 200'' = ''123 Main St''"
    by code_simp
  show "list_all (\<lambda>l. strip_unit (''9 Elm, '' @ l @ '' 4-B, Reno'') = ''9 Elm,, Reno'')
     [''Suite'', ''Ste'', ''Unit'', ''Apt'', ''Apartment'', ''Room'', ''Rm'', ''Floor'', ''Fl'',
      ''Bldg'', ''Building'']"
    by code_simp
  show "strip_unit ''9 Elm Rd, #4A, Reno'' = ''9 Elm Rd,, Reno''"
    by code_simp
  show "strip_unit ''9 Elm Rd #150'' = ''9 Elm Rd''"
    by code_simp
  show "strip_unit ''  5 Oak Ave apt. 4B  '' = ''5 Oak Ave''"
    by code_simp
  show "strip_unit ''9 Elm Rd, Suite 2 East'' = ''9 Elm Rd, Suite 2 East''"
    by code_simp
qed

subsection \<open>C4: failures of the two fetchers\<close>

text \<open>
  What the two fetchers do absorb: whatever the HTTP exchange raises (a transport
  error, a timeout, an error status, a body that is not JSON) gives the empty list,
  and a report with ECHO down still lists what USGS found.
\<close>

lemma fetch_epa_echo_absorbs_exchange_failure:
  "get lat lon radius = Inl e \<Longrightarrow> fetch_epa_echo L get lat lon radius = Inr []"
  by (simp add: fetch_epa_echo_def)

lemma fetch_usgs_absorbs_exchange_failure:
  "get (bounding_box L lat lon radius) = Inl e \<Longrightarrow> fetch_usgs L get lat lon radius = []"
  by (simp add: fetch_usgs_def)

lemma report_with_one_source_down:
  "report demo_lib
     (demo_providers\<lparr>echo := (\<lambda>lat lon radius. Inl (TimeoutException ''timed out''))\<rparr>)
     demo_req =
   Inr \<lparr>address = ''1 Main St'', center_latitude = 30, center_longitude = - 97,
        radius_miles = 50, total_findings = 1,
        facilities = [demo_facility ''River X'' ''081'' ''USGS'']\<rparr>"
proof -
  have r: "req_radius_miles demo_req = 50" by (simp add: demo_req_def)
  show ?thesis
    unfolding report_def r
    by (simp add: demo_geocode demo_usgs fetch_epa_echo_def demo_keys demo_raw_sel Let_def
          haversine_self cardinal_direction_self demo_facility_def)
qed

text \<open>
  Claim C4 says that a malformed answer of a provider makes the fetcher return the
  empty list and never fails the report. The code at such an input: ECHO answers
  with a JSON body that is not an object (here \<^verbatim>\<open>[]\<close>), or whose \<^verbatim>\<open>Results\<close> is \<^verbatim>\<open>null\<close>.
  The body decodes, so the \<^verbatim>\<open>try\<close> block is left without an exception; the lookup
  \<^verbatim>\<open>data.get("Results", {})\<close> after it raises \<^verbatim>\<open>AttributeError\<close>, which leaves
  \<^verbatim>\<open>fetch_epa_echo\<close> and then \<^verbatim>\<open>report\<close>.
\<close>

theorem fetch_epa_echo_malformed_body_raises:
  "fetch_epa_echo L (\<lambda>lat lon radius. Inr (JArr [])) lat lon radius = Inl AttributeError \<and>
   fetch_epa_echo L (\<lambda>lat lon radius. Inr (JObj [(''Results'', JNull)])) lat lon radius
     = Inl AttributeError \<and>
   report demo_lib (demo_providers\<lparr>echo := (\<lambda>lat lon radius. Inr (JArr []))\<rparr>) demo_req
     = Inl AttributeError"
proof -
  have r: "req_radius_miles demo_req = 50" by (simp add: demo_req_def)
  have a: "fetch_epa_echo L (\<lambda>lat lon radius. Inr (JArr [])) lat lon radius = Inl AttributeError"
    for L lat lon radius
    by (simp add: fetch_epa_echo_def epa_rows_def)
  have b: "fetch_epa_echo L (\<lambda>lat lon radius. Inr (JObj [(''Results'', JNull)])) lat lon radius
     = Inl AttributeError"
    by (simp add: fetch_epa_echo_def epa_rows_def)
  have "report demo_lib (demo_providers\<lparr>echo := (\<lambda>lat lon radius. Inr (JArr []))\<rparr>) demo_req
     = Inl AttributeError"
    unfolding report_def r by (simp add: demo_geocode a Let_def)
  with a b show ?thesis by simp
qed

subsection \<open>C5: no match from the geocoder fails the whole report\<close>

text \<open>
  Claim C5. When the geocoding provider answers the cleaned address with an empty
  list of matches, \<open>report\<close> raises the 404 \<open>HTTPException\<close> of \<^verbatim>\<open>geocode_address\<close>
  (the spec's \<^verbatim>\<open>GeocodeNotFound\<close>); the result is the exception, so no report, partial
  or other, is returned. The provider is asked only when the cleaned address is not
  empty.
\<close>

theorem report_geocode_not_found:
  assumes "strip_unit (req_address req) \<noteq> []"
    and "nominatim P (strip_unit (req_address req)) = Inr (JArr [])"
  shows "report L P req =
           Inl (HTTPException 404
                  (''Could not geocode address: '' @ strip_unit (req_address req)))"
  using assms
  by (simp add: report_def geocode_address_def geocode_failure_def Let_def)

lemma demo_strip_elm: "strip_unit ''2 Elm St'' = ''2 Elm St''"
  by code_simp

text \<open>In the sample environment Nominatim knows no \<^verbatim>\<open>2 Elm St\<close>.\<close>

theorem report_geocode_not_found_witness:
  "report demo_lib demo_providers \<lparr>req_address = ''2 Elm St'', req_radius_miles = 5\<rparr> =
     Inl (HTTPException 404 ''Could not geocode address: 2 Elm St'')"
  using report_geocode_not_found
          [of "\<lparr>req_address = ''2 Elm St'', req_radius_miles = 5\<rparr>" demo_providers demo_lib]
  by (simp add: demo_strip_elm demo_providers_def)

subsection \<open>C6: the distance is symmetric\<close>

text \<open>
  Claim C6. The distance from A to B equals the distance from B to A, within the
  tolerance of 0.01 mile: in the model the two are the same number, the rounding to
  two decimals included.
\<close>

theorem haversine_symmetric:
  "haversine lat1 lon1 lat2 lon2 = haversine lat2 lon2 lat1 lon1 \<and>
   \<bar>haversine lat1 lon1 lat2 lon2 - haversine lat2 lon2 lat1 lon1\<bar> \<le> 1 / 100"
  by (simp add: haversine_def haversine_a_sym [of lat1 lon1 lat2 lon2])

text \<open>Between the sample centre and plant B, more than 50 miles either way.\<close>

theorem haversine_symmetric_witness:
  "haversine 32 (- 97) 30 (- 97) = haversine 30 (- 97) 32 (- 97) \<and>
   50 < haversine 32 (- 97) 30 (- 97)"
  using haversine_symmetric [of 30 "- 97" 32 "- 97"] demo_far
  by simp

subsection \<open>C7: the facilities are sorted by distance, stably\<close>

text \<open>
  Claim C7. The facilities of every report are in non-decreasing order of
  \<open>distance_miles\<close>, and the sort is stable: the facilities of any one distance stand
  in the order in which the loop over the fetched records (deduplication and the
  radius filter) produced them.
\<close>

theorem report_facilities_sorted_stable:
  assumes "report L P req = Inr r"
  shows "sorted (map distance_miles (facilities r)) \<and>
         (\<exists>epa facs.
            fetch_epa_echo L (echo P) (center_latitude r) (center_longitude r) (radius_miles r)
              = Inr epa \<and>
            collect L (center_latitude r) (center_longitude r) (radius_miles r)
              (epa @ fetch_usgs L (usgs P) (center_latitude r) (center_longitude r)
                       (radius_miles r))
              {} [] = Inr facs \<and>
            (\<forall>d. filter (\<lambda>f. distance_miles f = d) (facilities r) =
                 filter (\<lambda>f. distance_miles f = d) facs))"
proof -
  from assms obtain geo epa facs where
    "geocode_address L (nominatim P) (req_address req) = Inr geo"
    and e: "fetch_epa_echo L (echo P) (geo_latitude geo) (geo_longitude geo)
              (req_radius_miles req) = Inr epa"
    and c: "collect L (geo_latitude geo) (geo_longitude geo) (req_radius_miles req)
          (epa @ fetch_usgs L (usgs P) (geo_latitude geo) (geo_longitude geo)
                   (req_radius_miles req))
          {} [] = Inr facs"
    and r: "r = \<lparr>address = cleaned_address geo,
                center_latitude = geo_latitude geo,
                center_longitude = geo_longitude geo,
                radius_miles = req_radius_miles req,
                total_findings = length (sort_key distance_miles facs),
                facilities = sort_key distance_miles facs\<rparr>"
    by (rule report_InrE)
  have s: "sorted (map distance_miles (facilities r))"
    by (simp add: r)
  have st: "\<forall>d. filter (\<lambda>f. distance_miles f = d) (facilities r) =
                 filter (\<lambda>f. distance_miles f = d) facs"
    by (simp add: r sort_key_stable)
  from e c have
    "fetch_epa_echo L (echo P) (center_latitude r) (center_longitude r) (radius_miles r)
       = Inr epa"
    "collect L (center_latitude r) (center_longitude r) (radius_miles r)
       (epa @ fetch_usgs L (usgs P) (center_latitude r) (center_longitude r) (radius_miles r))
       {} [] = Inr facs"
    by (simp_all add: r)
  with s st show ?thesis by blast
qed

text \<open>
  The sample run: plant A and the USGS site are both at distance 0, and the report
  lists them in the order of the loop, ECHO's record first.
\<close>

theorem report_facilities_sorted_stable_witness:
  "report demo_lib demo_providers demo_req = Inr demo_response \<and>
   map distance_miles (facilities demo_response) = [0, 0] \<and>
   sorted (map distance_miles (facilities demo_response)) \<and>
   collect demo_lib 30 (- 97) 50
     [demo_raw ''Plant A'' ''110'' 30 (- 97) ''EPA_ECHO'',
      demo_raw ''Plant B'' ''111'' 32 (- 97) ''EPA_ECHO'',
      demo_raw ''Plant A bis'' ''110'' 30 (- 97) ''EPA_ECHO'',
      demo_raw ''River X'' ''081'' 30 (- 97) ''USGS''] {} [] =
     Inr [demo_facility ''Plant A'' ''110'' ''EPA_ECHO'',
          demo_facility ''River X'' ''081'' ''USGS''] \<and>
   facilities demo_response =
     [demo_facility ''Plant A'' ''110'' ''EPA_ECHO'', demo_facility ''River X'' ''081'' ''USGS'']"
  using report_facilities_sorted_stable [OF demo_report] demo_report demo_collect
  by (simp add: demo_response_def demo_facility_distance)

subsection \<open>C8: the bounding box\<close>

text \<open>
  Claim C8. The bounding box for a centre \<open>(lat, lon)\<close> and a radius \<open>r\<close> is built
  from a latitude delta of \<open>r / 69.0\<close> and a longitude delta of
  \<open>r / (69.0 \<cdot> cos(lat))\<close>, or 180 when \<open>cos(lat) \<le> 1e-6\<close>. West and south are cut off
  below at -180 and -90, east and north above at 180 and 90, and each is rounded to
  six decimals. For a centre within the valid ranges and a radius that is not
  negative, all four values lie in the valid ranges of longitude and latitude.
\<close>

theorem bounding_box_values_clamped:
  "bounding_box_values lat lon r =
     (py_round (max (lon - spec_lon_delta lat r) (- 180)) 6,
      py_round (max (lat - spec_lat_delta r) (- 90)) 6,
      py_round (min (lon + spec_lon_delta lat r) 180) 6,
      py_round (min (lat + spec_lat_delta r) 90) 6) \<and>
   (case bounding_box_values lat lon r of
      (west, south, east, north) \<Rightarrow>
        - 180 \<le> west \<and> - 90 \<le> south \<and> east \<le> 180 \<and> north \<le> 90 \<and>
        (- 90 \<le> lat \<and> lat \<le> 90 \<and> - 180 \<le> lon \<and> lon \<le> 180 \<and> 0 \<le> r \<longrightarrow>
           west \<le> 180 \<and> south \<le> 90 \<and> - 180 \<le> east \<and> - 90 \<le> north))"
proof -
  have v: "bounding_box_values lat lon r =
           (py_round (max (lon - spec_lon_delta lat r) (- 180)) 6,
            py_round (max (lat - spec_lat_delta r) (- 90)) 6,
            py_round (min (lon + spec_lon_delta lat r) 180) 6,
            py_round (min (lat + spec_lat_delta r) 90) 6)"
    by (simp add: bounding_box_values_def spec_lat_delta_def spec_lon_delta_def Let_def
          not_less)
  have w: "of_int (- 180) \<le> py_round (max (lon - spec_lon_delta lat r) (- 180)) 6"
    by (rule py_round_ge) simp
  have s: "of_int (- 90) \<le> py_round (max (lat - spec_lat_delta r) (- 90)) 6"
    by (rule py_round_ge) simp
  have e: "py_round (min (lon + spec_lon_delta lat r) 180) 6 \<le> of_int 180"
    by (rule py_round_le) simp
  have n: "py_round (min (lat + spec_lat_delta r) 90) 6 \<le> of_int 90"
    by (rule py_round_le) simp
  have inner: "py_round (max (lon - spec_lon_delta lat r) (- 180)) 6 \<le> of_int 180 \<and>
               py_round (max (lat - spec_lat_delta r) (- 90)) 6 \<le> of_int 90 \<and>
               of_int (- 180) \<le> py_round (min (lon + spec_lon_delta lat r) 180) 6 \<and>
               of_int (- 90) \<le> py_round (min (lat + spec_lat_delta r) 90) 6"
    if h: "- 90 \<le> lat \<and> lat \<le> 90 \<and> - 180 \<le> lon \<and> lon \<le> 180 \<and> 0 \<le> r"
  proof -
    have dlo: "0 \<le> spec_lon_delta lat r" using h by (intro spec_lon_delta_nonneg) simp
    have dla: "0 \<le> spec_lat_delta r" using h by (simp add: spec_lat_delta_def)
    have "py_round (max (lon - spec_lon_delta lat r) (- 180)) 6 \<le> of_int 180"
      using h dlo by (intro py_round_le) simp
    moreover have "py_round (max (lat - spec_lat_delta r) (- 90)) 6 \<le> of_int 90"
      using h dla by (intro py_round_le) simp
    moreover have "of_int (- 180) \<le> py_round (min (lon + spec_lon_delta lat r) 180) 6"
      using h dlo by (intro py_round_ge) simp
    moreover have "of_int (- 90) \<le> py_round (min (lat + spec_lat_delta r) 90) 6"
      using h dla by (intro py_round_ge) simp
    ultimately show ?thesis by simp
  qed
  from w s e n inner show ?thesis unfolding v by simp
qed

text \<open>
  On the equator a radius of 69 miles is one degree each way. At the pole the cosine
  is 0, the longitude delta is 180, and east and north are cut off at 180 and 90.
\<close>

theorem bounding_box_values_clamped_witness:
  "bounding_box_values 0 0 69 = (- 1, - 1, 1, 1) \<and>
   bounding_box_values 90 10 69 = (- 170, 89, 180, 90)"
proof -
  have c: "cos (radians 0) = 1" "cos (radians 90) = 0"
    by (simp_all add: radians_def)
  have r: "py_round (- 1) 6 = - 1" "py_round 1 6 = 1" "py_round (- 170) 6 = - 170"
    "py_round 89 6 = 89" "py_round 180 6 = 180" "py_round 90 6 = 90"
    using py_round_of_int [of "- 1" 6] py_round_of_int [of 1 6] py_round_of_int [of "- 170" 6]
      py_round_of_int [of 89 6] py_round_of_int [of 180 6] py_round_of_int [of 90 6]
    by simp_all
  show ?thesis
    using bounding_box_values_clamped [of 0 0 69] bounding_box_values_clamped [of 90 10 69]
    by (simp add: spec_lat_delta_def spec_lon_delta_def c r)
qed

subsection \<open>C9: the bearing of a point from itself\<close>

text \<open>
  Claim C9. For every coordinate A the bearing from A to A is defined and is the
  fixed direction \<^verbatim>\<open>"N"\<close>: both differences are zero, \<^verbatim>\<open>atan2(0, 0)\<close> is 0, and the index
  into the list of directions is 0.
\<close>

theorem cardinal_direction_same_point:
  "direction_index lat lon lat lon = 0 \<and> cardinal_direction lat lon lat lon = ''N''"
  by (simp add: direction_index_self cardinal_direction_self)

theorem cardinal_direction_same_point_witness:
  "cardinal_direction 30 (- 97) 30 (- 97) = ''N''"
  using cardinal_direction_same_point [of 30 "- 97"]
  by simp

subsection \<open>C10: the report carries the cleaned address\<close>

text \<open>
  Claim C10. The address of a report that \<open>report\<close> returns is the cleaned address,
  \<open>strip_unit\<close> of the address of the request, and not the address of the request
  itself: the two differ in a run where a unit was removed.
\<close>

theorem report_address_is_cleaned:
  "(report L P req = Inr r \<longrightarrow> address r = strip_unit (req_address req)) \<and>
   (\<exists>L' P' req' r'. report L' P' req' = Inr r' \<and> address r' \<noteq> req_address req')"
proof
  show "report L P req = Inr r \<longrightarrow> address r = strip_unit (req_address req)"
  proof
    assume "report L P req = Inr r"
    then obtain geo epa facs where
      g: "geocode_address L (nominatim P) (req_address req) = Inr geo"
      and "fetch_epa_echo L (echo P) (geo_latitude geo) (geo_longitude geo)
              (req_radius_miles req) = Inr epa"
      and "collect L (geo_latitude geo) (geo_longitude geo) (req_radius_miles req)
          (epa @ fetch_usgs L (usgs P) (geo_latitude geo) (geo_longitude geo)
                   (req_radius_miles req))
          {} [] = Inr facs"
      and r: "r = \<lparr>address = cleaned_address geo,
                center_latitude = geo_latitude geo,
                center_longitude = geo_longitude geo,
                radius_miles = req_radius_miles req,
                total_findings = length (sort_key distance_miles facs),
                facilities = sort_key distance_miles facs\<rparr>"
      by (rule report_InrE)
    from geocode_address_cleaned [OF g] r
    show "address r = strip_unit (req_address req)" by simp
  qed
next
  have "address demo_response \<noteq> req_address demo_req"
    by (simp add: demo_response_def demo_req_def)
  with demo_report
  show "\<exists>L' P' req' r'. report L' P' req' = Inr r' \<and> address r' \<noteq> req_address req'"
    by blast
qed

text \<open>The sample run: asked for \<^verbatim>\<open>1 Main St, Suite 2\<close>, the report says \<^verbatim>\<open>1 Main St\<close>.\<close>

theorem report_address_is_cleaned_witness:
  "report demo_lib demo_providers demo_req = Inr demo_response \<and>
   req_address demo_req = ''1 Main St, Suite 2'' \<and>
   address demo_response = ''1 Main St'' \<and>
   address demo_response = strip_unit (req_address demo_req)"
  using report_address_is_cleaned [of demo_lib demo_providers demo_req demo_response]
    demo_report
  by (simp add: demo_response_def demo_req_def)

end
